theory Spec2Isabelle
  imports Main "HOL-Library.FSet" "HOL-Library.DAList"
begin

section \<open>Values, payloads and Python dictionary keys\<close>

text \<open>
  Socket.IO payloads are JSON documents that the library hands to the handlers as Python
  values. JSON numbers are modelled as integers only.
\<close>

datatype json =
    JNull
  | JBool bool
  | JInt int
  | JStr string
  | JArr "json list"
  | JObj "(string \<times> json) list"

type_synonym sid = string

text \<open>A dict literal the server builds (an outbound payload, a log entry), in the order written.\<close>

type_synonym pydict = "(string \<times> json) list"

text \<open>A payload that is a dict, as the handlers read it with \<open>data.get\<close>.\<close>

type_synonym payload = "string \<rightharpoonup> json"

datatype py_error = AttributeError | TypeError | ValueError | KeyError

text \<open>
  Every handler starts by calling \<open>data.get\<close>. Only a dict has that method: for any other
  value the call raises \<open>AttributeError\<close>. Of a repeated key the last value counts.
\<close>

fun as_dict :: "json \<Rightarrow> py_error + payload" where
  "as_dict (JObj kvs) = Inr (map_of (rev kvs))"
| "as_dict v = Inl AttributeError"

text \<open>\<open>data.get(k)\<close> and \<open>data.get(k, d)\<close>.\<close>

definition get :: "payload \<Rightarrow> string \<Rightarrow> json" where
  "get data k = (case data k of None \<Rightarrow> JNull | Some v \<Rightarrow> v)"

definition get_default :: "payload \<Rightarrow> string \<Rightarrow> json \<Rightarrow> json" where
  "get_default data k d = (case data k of None \<Rightarrow> d | Some v \<Rightarrow> v)"

text \<open>
  Using a value as the key of a Python dict (\<open>k in d\<close>, \<open>d[k]\<close>, \<open>d[k] = v\<close>): lists and
  dicts are unhashable and raise \<open>TypeError\<close>; \<open>True\<close> and \<open>False\<close> are the same keys as
  \<open>1\<close> and \<open>0\<close>. \<open>dict_key\<close> gives the representative under which a value is stored and
  looked up.
\<close>

fun dict_key :: "json \<Rightarrow> py_error + json" where
  "dict_key (JArr xs) = Inl TypeError"
| "dict_key (JObj kvs) = Inl TypeError"
| "dict_key (JBool b) = Inr (JInt (if b then 1 else 0))"
| "dict_key v = Inr v"

text \<open>Python's truth value of a payload value, as \<open>x or y\<close> tests it.\<close>

fun truthy :: "json \<Rightarrow> bool" where
  "truthy JNull = False"
| "truthy (JBool b) = b"
| "truthy (JInt i) = (i \<noteq> 0)"
| "truthy (JStr s) = (s \<noteq> [])"
| "truthy (JArr xs) = (xs \<noteq> [])"
| "truthy (JObj kvs) = (kvs \<noteq> [])"

section \<open>Rooms\<close>

text \<open>
  \<open>class StreamRoom\<close>. \<open>created_at\<close> holds the clock reading \<open>datetime.now()\<close> taken by
  the constructor; the reading is an argument of the model.
\<close>

type_synonym datetime = string

record StreamRoom =
  room_id :: json
  host_id :: sid
  viewers :: "sid fset"
  chat_history :: "pydict list"
  created_at :: datetime
  stream_active :: bool

definition StreamRoom_init :: "json \<Rightarrow> sid \<Rightarrow> datetime \<Rightarrow> StreamRoom" where
  "StreamRoom_init rid hid now =
     \<lparr>room_id = rid, host_id = hid, viewers = {||}, chat_history = [],
      created_at = now, stream_active = False\<rparr>"

definition add_viewer :: "sid \<Rightarrow> StreamRoom \<Rightarrow> StreamRoom" where
  "add_viewer viewer_id room = room\<lparr>viewers := finsert viewer_id (viewers room)\<rparr>"

definition remove_viewer :: "sid \<Rightarrow> StreamRoom \<Rightarrow> StreamRoom" where
  "remove_viewer viewer_id room = room\<lparr>viewers := viewers room |-| {|viewer_id|}\<rparr>"

definition get_viewer_count :: "StreamRoom \<Rightarrow> int" where
  "get_viewer_count room = int (fcard (viewers room))"

section \<open>Server state\<close>

text \<open>
  The module globals \<open>active_rooms\<close> and \<open>stream_stats\<close>. \<open>active_rooms\<close> is iterated by
  \<open>handle_disconnect\<close>, so it keeps Python's insertion order: an association list with
  distinct keys, where assigning to a present key keeps its position.

  \<open>sio_rooms\<close> is the room registry that Flask-SocketIO keeps for the server: the members
  of every broadcast group, by group key. The group of the key \<open>None\<close> holds every
  connected client, and a connected client is a member of the group named by its own
  session id.
\<close>

record state =
  active_rooms :: "(json, StreamRoom) alist"
  stream_stats :: "json \<rightharpoonup> pydict list"
  sio_rooms :: "json \<Rightarrow> sid fset"

definition init_state :: state where
  "init_state = \<lparr>active_rooms = DAList.empty, stream_stats = Map.empty, sio_rooms = (\<lambda>_. {||})\<rparr>"

definition connected :: "state \<Rightarrow> sid fset" where
  "connected s = sio_rooms s JNull"

section \<open>The Flask-SocketIO calls\<close>

text \<open>
  The library is not part of the repository; \<open>join_room\<close> and \<open>emit\<close> are modelled as the
  handlers use them, called for the connection \<open>c\<close> whose event is being handled.

  \<open>join_room(room)\<close> uses \<open>room\<close> as a dict key, refuses to enter the group that belongs to
  a connected client (\<open>ValueError\<close>), and otherwise adds \<open>c\<close> to the group.
\<close>

definition sid_room :: "state \<Rightarrow> json \<Rightarrow> bool" where
  "sid_room s k = (case k of JStr c \<Rightarrow> c |\<in>| connected s | _ \<Rightarrow> False)"

definition join_room :: "sid \<Rightarrow> json \<Rightarrow> state \<Rightarrow> py_error + state" where
  "join_room c room s =
     (case dict_key room of
        Inl e \<Rightarrow> Inl e
      | Inr k \<Rightarrow>
          if sid_room s k then Inl ValueError
          else Inr (s\<lparr>sio_rooms := (sio_rooms s)(k := finsert c (sio_rooms s k))\<rparr>))"

text \<open>When a connection has disconnected the library drops it from every group.\<close>

definition sio_leave_all :: "sid \<Rightarrow> state \<Rightarrow> state" where
  "sio_leave_all c s = s\<lparr>sio_rooms := (\<lambda>k. sio_rooms s k |-| {|c|})\<rparr>"

text \<open>
  The handlers' calls of \<open>emit\<close>, as they are written: \<open>emit(event, payload)\<close> is recorded
  with \<open>ToSender\<close>, and \<open>emit(event, payload, room=r, include_self=b)\<close> with \<open>ToRoom r b\<close>,
  the argument \<open>r\<close> as the handler passes it and \<open>b\<close> being \<open>True\<close> when \<open>include_self\<close> is
  not given.
\<close>

datatype target = ToSender | ToRoom json bool

datatype emit = Emit string pydict target

fun emit_room :: "emit \<Rightarrow> json option" where
  "emit_room (Emit ev pl ToSender) = None"
| "emit_room (Emit ev pl (ToRoom r b)) = Some r"

text \<open>
  Whom \<open>emit(..., room=r)\<close> addresses. Without a room, or with \<open>room=None\<close>, it is the
  group of the calling connection's own id. Any other value that is false in Python
  (\<open>False\<close>, \<open>0\<close>, the empty string, list or dict) ends up as no room at all in the
  server's own \<open>emit\<close>, which then addresses every connected client. A non-empty list is
  taken as a list of groups, a non-empty dict raises \<open>KeyError\<close> when its element \<open>0\<close> is
  read, and any other value names one group.
\<close>

fun group_union :: "state \<Rightarrow> json list \<Rightarrow> py_error + sid fset" where
  "group_union s [] = Inr {||}"
| "group_union s (r # rs) =
     (case dict_key r of
        Inl e \<Rightarrow> Inl e
      | Inr k \<Rightarrow>
          (case group_union s rs of
             Inl e \<Rightarrow> Inl e
           | Inr g \<Rightarrow> Inr (sio_rooms s k |\<union>| g)))"

definition participants :: "state \<Rightarrow> sid \<Rightarrow> json \<Rightarrow> py_error + sid fset" where
  "participants s c r =
     (if r = JNull then Inr (sio_rooms s (JStr c))
      else if \<not> truthy r then Inr (sio_rooms s JNull)
      else case r of
             JObj kvs \<Rightarrow> Inl KeyError
           | JArr rs \<Rightarrow> group_union s rs
           | _ \<Rightarrow> (case dict_key r of Inl e \<Rightarrow> Inl e | Inr k \<Rightarrow> Inr (sio_rooms s k)))"

text \<open>The connections an emitted event is addressed to, in the state in which it is emitted.\<close>

fun addressees :: "state \<Rightarrow> sid \<Rightarrow> emit \<Rightarrow> sid fset" where
  "addressees s c (Emit ev pl ToSender) = sio_rooms s (JStr c)"
| "addressees s c (Emit ev pl (ToRoom r include_self)) =
     (case participants s c r of
        Inl e \<Rightarrow> {||}
      | Inr g \<Rightarrow> if include_self then g else g |-| {|c|})"

text \<open>
  What a handler leaves behind: the state, the events it has emitted, and the exception
  it raised, if any.
\<close>

type_synonym result = "state \<times> emit list \<times> py_error option"

text \<open>
  The last statement of a handler, \<open>emit(ev, pl, room=r, include_self=b)\<close>, run in state
  \<open>s\<close> after the events \<open>out\<close> have been emitted.
\<close>

definition emit_last ::
  "state \<Rightarrow> sid \<Rightarrow> emit list \<Rightarrow> string \<Rightarrow> pydict \<Rightarrow> json \<Rightarrow> bool \<Rightarrow> result" where
  "emit_last s c out ev pl r b =
     (case participants s c r of
        Inl e \<Rightarrow> (s, out, Some e)
      | Inr g \<Rightarrow> (s, out @ [Emit ev pl (ToRoom r b)], None))"

section \<open>Event handlers\<close>

definition handle_connect :: "sid \<Rightarrow> state \<Rightarrow> state \<times> emit list" where
  "handle_connect c s = (s, [Emit ''connected'' [(''sid'', JStr c)] ToSender])"

text \<open>
  One iteration of the loop of \<open>handle_disconnect\<close> over the snapshot
  \<open>list(active_rooms.items())\<close>. The room object of the snapshot is the object stored in
  the table under its key, and no other iteration touches that key. The room argument of
  the two calls of \<open>emit\<close> is a key of the dict, so it is \<open>None\<close>, a number or a string, for
  which \<open>emit\<close> does not raise.
\<close>

fun disconnect_room ::
  "sid \<Rightarrow> json \<times> StreamRoom \<Rightarrow> (json, StreamRoom) alist \<times> emit list
     \<Rightarrow> (json, StreamRoom) alist \<times> emit list" where
  "disconnect_room c (rid, room) (ar, out) =
     (if c = host_id room then
        (DAList.delete rid ar,
         out @ [Emit ''stream_ended'' [(''message'', JStr ''Host disconnected'')] (ToRoom rid True)])
      else if c |\<in>| viewers room then
        (let room' = remove_viewer c room
         in (DAList.update rid room' ar,
             out @ [Emit ''viewer_left''
                      [(''viewer_id'', JStr c), (''viewer_count'', JInt (get_viewer_count room'))]
                      (ToRoom rid True)]))
      else (ar, out))"

definition handle_disconnect :: "sid \<Rightarrow> state \<Rightarrow> state \<times> emit list" where
  "handle_disconnect c s =
     (let (ar, out) = fold (disconnect_room c) (DAList.impl_of (active_rooms s)) (active_rooms s, [])
      in (s\<lparr>active_rooms := ar\<rparr>, out))"

definition handle_create_room :: "sid \<Rightarrow> datetime \<Rightarrow> payload \<Rightarrow> state \<Rightarrow> result" where
  "handle_create_room c now data s =
     (let rid = get data ''room_id'' in
      case join_room c rid s of
        Inl e \<Rightarrow> (s, [], Some e)
      | Inr s1 \<Rightarrow>
          (case dict_key rid of
             Inl e \<Rightarrow> (s1, [], Some e)
           | Inr k \<Rightarrow>
               (let room = StreamRoom_init rid c now;
                    s2 = s1\<lparr>active_rooms := DAList.update k room (active_rooms s1)\<rparr>
                in (s2, [Emit ''room_created'' [(''room_id'', rid), (''host_id'', JStr c)] ToSender],
                    None))))"

definition handle_join_room :: "sid \<Rightarrow> payload \<Rightarrow> state \<Rightarrow> result" where
  "handle_join_room c data s =
     (let rid = get data ''room_id'';
          username = get_default data ''username'' (JStr ''Anonymous'') in
      case dict_key rid of
        Inl e \<Rightarrow> (s, [], Some e)
      | Inr k \<Rightarrow>
          (case DAList.lookup (active_rooms s) k of
             None \<Rightarrow> (s, [Emit ''error'' [(''message'', JStr ''Room not found'')] ToSender], None)
           | Some room \<Rightarrow>
               (case join_room c rid s of
                  Inl e \<Rightarrow> (s, [], Some e)
                | Inr s1 \<Rightarrow>
                    (let room' = add_viewer c room;
                         s2 = s1\<lparr>active_rooms := DAList.update k room' (active_rooms s1)\<rparr>
                     in emit_last s2 c
                          [Emit ''room_joined''
                             [(''room_id'', rid), (''viewer_count'', JInt (get_viewer_count room')),
                              (''username'', username)] ToSender]
                          ''viewer_joined''
                          [(''viewer_id'', JStr c), (''username'', username),
                           (''viewer_count'', JInt (get_viewer_count room'))]
                          rid False))))"

definition handle_start_stream :: "sid \<Rightarrow> payload \<Rightarrow> state \<Rightarrow> result" where
  "handle_start_stream c data s =
     (let rid = get data ''room_id'' in
      case dict_key rid of
        Inl e \<Rightarrow> (s, [], Some e)
      | Inr k \<Rightarrow>
          (case DAList.lookup (active_rooms s) k of
             None \<Rightarrow> (s, [], None)
           | Some room \<Rightarrow>
               emit_last
                 (s\<lparr>active_rooms := DAList.update k (room\<lparr>stream_active := True\<rparr>) (active_rooms s)\<rparr>)
                 c [] ''stream_started'' [(''room_id'', rid)] rid True))"

definition handle_stop_stream :: "sid \<Rightarrow> payload \<Rightarrow> state \<Rightarrow> result" where
  "handle_stop_stream c data s =
     (let rid = get data ''room_id'' in
      case dict_key rid of
        Inl e \<Rightarrow> (s, [], Some e)
      | Inr k \<Rightarrow>
          (case DAList.lookup (active_rooms s) k of
             None \<Rightarrow> (s, [], None)
           | Some room \<Rightarrow>
               emit_last
                 (s\<lparr>active_rooms := DAList.update k (room\<lparr>stream_active := False\<rparr>) (active_rooms s)\<rparr>)
                 c [] ''stream_stopped'' [(''room_id'', rid)] rid True))"

text \<open>WebRTC signalling: the three relays read their fields and emit; they touch no table.\<close>

definition handle_offer :: "sid \<Rightarrow> payload \<Rightarrow> state \<Rightarrow> result" where
  "handle_offer c data s =
     (let target_id = get data ''target_id'';
          offer = get data ''offer''
      in emit_last s c [] ''offer'' [(''offer'', offer), (''sender_id'', JStr c)] target_id True)"

definition handle_answer :: "sid \<Rightarrow> payload \<Rightarrow> state \<Rightarrow> result" where
  "handle_answer c data s =
     (let target_id = get data ''target_id'';
          answer = get data ''answer''
      in emit_last s c [] ''answer'' [(''answer'', answer), (''sender_id'', JStr c)] target_id True)"

definition handle_ice_candidate :: "sid \<Rightarrow> payload \<Rightarrow> state \<Rightarrow> result" where
  "handle_ice_candidate c data s =
     (let target_id = get data ''target_id'';
          candidate = get data ''candidate''
      in emit_last s c [] ''ice_candidate'' [(''candidate'', candidate), (''sender_id'', JStr c)]
           target_id True)"

text \<open>
  \<open>hms\<close> is the clock reading \<open>datetime.now().strftime('%H:%M:%S')\<close> of the call. The entry
  appended to the history is the dict that is broadcast.
\<close>

definition handle_chat_message :: "sid \<Rightarrow> string \<Rightarrow> payload \<Rightarrow> state \<Rightarrow> result" where
  "handle_chat_message c hms data s =
     (let rid = get data ''room_id'';
          message = get data ''message'';
          username = get_default data ''username'' (JStr ''Anonymous'') in
      case dict_key rid of
        Inl e \<Rightarrow> (s, [], Some e)
      | Inr k \<Rightarrow>
          (case DAList.lookup (active_rooms s) k of
             None \<Rightarrow> (s, [], None)
           | Some room \<Rightarrow>
               (let chat_data = [(''username'', username), (''message'', message),
                                 (''timestamp'', JStr hms)];
                    room' = room\<lparr>chat_history := chat_history room @ [chat_data]\<rparr>
                in emit_last (s\<lparr>active_rooms := DAList.update k room' (active_rooms s)\<rparr>)
                     c [] ''chat_message'' chat_data rid True)))"

text \<open>\<open>server_time\<close> is the reading \<open>time.time() * 1000\<close> of the call.\<close>

definition handle_latency_ping :: "json \<Rightarrow> payload \<Rightarrow> state \<Rightarrow> result" where
  "handle_latency_ping server_time data s =
     (s, [Emit ''latency_pong'' [(''timestamp'', get data ''timestamp''),
                                 (''server_time'', server_time)] ToSender], None)"

text \<open>
  \<open>now_iso\<close> is the clock reading \<open>datetime.now().isoformat()\<close> of the call. The slice
  \<open>xs[-n:]\<close> is \<open>slice_last n xs\<close>: the last \<open>n\<close> elements, or all of \<open>xs\<close> when it has fewer
  (and all of it when \<open>n\<close> is 0, where the slice is \<open>xs[0:]\<close>).
\<close>

definition slice_last :: "nat \<Rightarrow> 'a list \<Rightarrow> 'a list" where
  "slice_last n xs = (if n = 0 then xs else drop (length xs - n) xs)"

definition stats_entry :: "string \<Rightarrow> payload \<Rightarrow> pydict" where
  "stats_entry now_iso data = [(''timestamp'', JStr now_iso), (''stats'', get data ''stats'')]"

definition handle_stream_stats :: "string \<Rightarrow> payload \<Rightarrow> state \<Rightarrow> result" where
  "handle_stream_stats now_iso data s =
     (let rid = get data ''room_id'' in
      case dict_key rid of
        Inl e \<Rightarrow> (s, [], Some e)
      | Inr k \<Rightarrow>
          (let log0 = (case stream_stats s k of None \<Rightarrow> [] | Some l \<Rightarrow> l);
               log1 = log0 @ [stats_entry now_iso data];
               log2 = (if length log1 > 100 then slice_last 100 log1 else log1)
           in (s\<lparr>stream_stats := (stream_stats s)(k \<mapsto> log2)\<rparr>, [], None)))"

text \<open>The route \<open>/api/stats/<room_id>\<close>: the path segment is a string.\<close>

definition get_stats :: "string \<Rightarrow> state \<Rightarrow> pydict list" where
  "get_stats rid s = (case stream_stats s (JStr rid) of Some l \<Rightarrow> l | None \<Rightarrow> [])"

section \<open>Dispatch\<close>

text \<open>
  The front door calls one handler per inbound message, \<open>onEvent(connectionId, eventName,
  payload)\<close>, and supplies what the handlers read from the clock. The payload is any JSON
  value; the first \<open>data.get\<close> of the handler raises when it is not a dict.
\<close>

datatype event_name =
    Create_room | Join_room | Start_stream | Stop_stream | Offer | Answer | Ice_candidate
  | Chat_message | Latency_ping | Stream_stats

record clock =
  clock_now :: datetime
  clock_hms :: string
  clock_iso :: string
  clock_millis :: json

fun dispatch :: "clock \<Rightarrow> sid \<Rightarrow> event_name \<Rightarrow> payload \<Rightarrow> state \<Rightarrow> result" where
  "dispatch clk c Create_room data s = handle_create_room c (clock_now clk) data s"
| "dispatch clk c Join_room data s = handle_join_room c data s"
| "dispatch clk c Start_stream data s = handle_start_stream c data s"
| "dispatch clk c Stop_stream data s = handle_stop_stream c data s"
| "dispatch clk c Offer data s = handle_offer c data s"
| "dispatch clk c Answer data s = handle_answer c data s"
| "dispatch clk c Ice_candidate data s = handle_ice_candidate c data s"
| "dispatch clk c Chat_message data s = handle_chat_message c (clock_hms clk) data s"
| "dispatch clk c Latency_ping data s = handle_latency_ping (clock_millis clk) data s"
| "dispatch clk c Stream_stats data s = handle_stream_stats (clock_iso clk) data s"

definition on_event :: "clock \<Rightarrow> sid \<Rightarrow> event_name \<Rightarrow> json \<Rightarrow> state \<Rightarrow> result" where
  "on_event clk c ev data s =
     (case as_dict data of
        Inl e \<Rightarrow> (s, [], Some e)
      | Inr d \<Rightarrow> dispatch clk c ev d s)"

text \<open>
  What one occurrence does to the state. The library gives a new connection a session id
  that is not empty and not in use, as a connection or as the name of a group, and enters
  it into the group of every client and into the group of its own id. Messages and the
  disconnect come from connected clients; after \<open>handle_disconnect\<close> the library drops the
  connection from its groups. A handler that raises leaves the state it had reached.
\<close>

datatype occurrence = Connected sid | Disconnected sid | Message clock sid event_name json

fun occur :: "occurrence \<Rightarrow> state \<Rightarrow> state" where
  "occur (Connected c) s =
     (if c \<noteq> [] \<and> c |\<notin>| connected s \<and> sio_rooms s (JStr c) = {||} then
        fst (handle_connect c
               (s\<lparr>sio_rooms := (sio_rooms s)(JNull := finsert c (sio_rooms s JNull), JStr c := {|c|})\<rparr>))
      else s)"
| "occur (Disconnected c) s =
     (if c |\<in>| connected s then sio_leave_all c (fst (handle_disconnect c s)) else s)"
| "occur (Message clk c ev data) s =
     (if c |\<in>| connected s then fst (on_event clk c ev data s) else s)"

definition run :: "occurrence list \<Rightarrow> state \<Rightarrow> state" where
  "run os s = fold occur os s"

text \<open>
  What holds of every state the server reaches: the keys of \<open>active_rooms\<close> are dict keys,
  none of them is the group of a connected client, and the host and the viewers of a room
  are members of the group of its key; the members of every group are connected; and a
  connected client is alone in the group of its own id.
\<close>

definition wf_state :: "state \<Rightarrow> bool" where
  "wf_state s \<longleftrightarrow>
     (\<forall>k room. DAList.lookup (active_rooms s) k = Some room \<longrightarrow>
        dict_key k = Inr k \<and> \<not> sid_room s k \<and>
        viewers room |\<subseteq>| sio_rooms s k \<and> host_id room |\<in>| sio_rooms s k) \<and>
     (\<forall>k. sio_rooms s k |\<subseteq>| connected s) \<and>
     (\<forall>c. c |\<in>| connected s \<longrightarrow> c \<noteq> [] \<and> sio_rooms s (JStr c) = {|c|})"

text \<open>The entries one iteration of the disconnect loop emits.\<close>

definition room_emits :: "sid \<Rightarrow> json \<times> StreamRoom \<Rightarrow> emit list" where
  "room_emits c e = snd (disconnect_room c e (DAList.empty, []))"

text \<open>
  The active room that the \<open>room_id\<close> of a payload names, if it names one: none when the
  payload is not a dict, when \<open>room_id\<close> cannot be a key, or when the key is not in the
  table.
\<close>

definition named_room :: "state \<Rightarrow> json \<Rightarrow> StreamRoom option" where
  "named_room s data =
     (case as_dict data of
        Inl e \<Rightarrow> None
      | Inr d \<Rightarrow>
          (case dict_key (get d ''room_id'') of
             Inl e \<Rightarrow> None
           | Inr k \<Rightarrow> DAList.lookup (active_rooms s) k))"

text \<open>A sequence of \<open>stream_stats\<close> messages, each with the clock reading of its call.\<close>

fun stats_events :: "(string \<times> payload) list \<Rightarrow> state \<Rightarrow> state" where
  "stats_events [] s = s"
| "stats_events ((ts, data) # evs) s = stats_events evs (fst (handle_stream_stats ts data s))"

text \<open>The stats log of a key, as \<open>get_stats\<close> reads it: empty when the key is absent.\<close>

definition stats_log :: "state \<Rightarrow> json \<Rightarrow> pydict list" where
  "stats_log s k = (case stream_stats s k of Some l \<Rightarrow> l | None \<Rightarrow> [])"

text \<open>The value a handler reads for a field that the payload lacks.\<close>

definition field_default :: "string \<Rightarrow> json" where
  "field_default f = (if f = ''username'' then JStr ''Anonymous'' else JNull)"

section \<open>Example states\<close>

text \<open>
  Connections \<open>A\<close>, \<open>B\<close>, \<open>C\<close> and \<open>D\<close> are open; \<open>A\<close> has created room \<open>r1\<close>, \<open>B\<close> and \<open>C\<close>
  have joined it, and one stats entry has been reported for it.
\<close>

definition clock0 :: clock where
  "clock0 = \<lparr>clock_now = ''2025-01-01T00:00:00'', clock_hms = ''00:00:00'',
             clock_iso = ''2025-01-01T00:00:01'', clock_millis = JInt 0\<rparr>"

definition join_r1 :: json where
  "join_r1 = JObj [(''room_id'', JStr ''r1'')]"

definition state_r1 :: state where
  "state_r1 =
     run [Connected ''A'', Connected ''B'', Connected ''C'', Connected ''D'',
          Message clock0 ''A'' Create_room join_r1,
          Message clock0 ''B'' Join_room (JObj [(''room_id'', JStr ''r1''), (''username'', JStr ''Bob'')]),
          Message clock0 ''C'' Join_room join_r1,
          Message clock0 ''A'' Stream_stats (JObj [(''room_id'', JStr ''r1''), (''stats'', JInt 7)])]
       init_state"

text \<open>The room that \<open>state_r1\<close> holds under the key \<open>r1\<close>.\<close>

definition room_r1 :: StreamRoom where
  "room_r1 = \<lparr>room_id = JStr ''r1'', host_id = ''A'', viewers = {|''B'', ''C''|},
              chat_history = [], created_at = ''2025-01-01T00:00:00'', stream_active = False\<rparr>"

text \<open>The host \<open>A\<close> of \<open>r1\<close> has joined its own room as a viewer.\<close>

definition state_r1_host_joined :: state where
  "state_r1_host_joined = run [Message clock0 ''A'' Join_room join_r1] state_r1"

text \<open>
  \<open>D\<close> has created \<open>r1\<close> again, and the new connection \<open>E\<close> and then \<open>C\<close> have joined the
  new room, whose viewers are \<open>E\<close> and \<open>C\<close>.
\<close>

definition state_r1_again :: state where
  "state_r1_again =
     run [Connected ''E'',
          Message clock0 ''D'' Create_room join_r1,
          Message clock0 ''E'' Join_room join_r1,
          Message clock0 ''C'' Join_room join_r1]
       state_r1"

definition room_r1_again :: StreamRoom where
  "room_r1_again = \<lparr>room_id = JStr ''r1'', host_id = ''D'', viewers = {|''C'', ''E''|},
                    chat_history = [], created_at = ''2025-01-01T00:00:00'', stream_active = False\<rparr>"

text \<open>
  \<open>A\<close> has created a room with a payload that has no \<open>room_id\<close>, and \<open>B\<close> and \<open>C\<close> have joined
  with such a payload: the room is stored under the key \<open>None\<close>.
\<close>

definition state_null :: state where
  "state_null =
     run [Connected ''A'', Connected ''B'', Connected ''C'',
          Message clock0 ''A'' Create_room (JObj []),
          Message clock0 ''B'' Join_room (JObj []),
          Message clock0 ''C'' Join_room (JObj [])]
       init_state"

definition room_null :: StreamRoom where
  "room_null = \<lparr>room_id = JNull, host_id = ''A'', viewers = {|''B'', ''C''|},
                chat_history = [], created_at = ''2025-01-01T00:00:00'', stream_active = False\<rparr>"

text \<open>The \<open>i\<close>-th of a series of stats reports for \<open>r1\<close>, with its clock reading.\<close>

definition stats_msg :: "nat \<Rightarrow> string \<times> payload" where
  "stats_msg i = (''2025-01-01T00:01:00'', [''room_id'' \<mapsto> JStr ''r1'', ''stats'' \<mapsto> JInt (int i)])"

section \<open>The disconnect loop\<close>

lemma room_emits_snd: "snd (disconnect_room c e (ar, out)) = out @ room_emits c e"
  by (cases e) (simp add: room_emits_def Let_def)

lemma fold_disconnect_out:
  "snd (fold (disconnect_room c) xs (ar, out)) = out @ concat (map (room_emits c) xs)"
proof (induction xs arbitrary: ar out)
  case Nil
  show ?case by simp
next
  case (Cons x xs)
  obtain ar' out' where step: "disconnect_room c x (ar, out) = (ar', out')"
    by (cases "disconnect_room c x (ar, out)")
  have "out' = out @ room_emits c x"
    using room_emits_snd [of c x ar out] step by simp
  then show ?case
    using Cons.IH [of ar' out'] step by simp
qed

lemma fold_disconnect_lookup:
  "distinct (map fst xs) \<Longrightarrow>
   DAList.lookup (fst (fold (disconnect_room c) xs (ar, out))) k =
     (case map_of xs k of
        None \<Rightarrow> DAList.lookup ar k
      | Some room \<Rightarrow>
          if c = host_id room then None
          else if c |\<in>| viewers room then Some (remove_viewer c room)
          else DAList.lookup ar k)"
proof (induction xs arbitrary: ar out)
  case Nil
  show ?case by simp
next
  case (Cons x xs)
  obtain rid room where x: "x = (rid, room)" by (cases x)
  have d: "distinct (map fst xs)" and nin: "rid \<notin> fst ` set xs"
    using Cons.prems x by auto
  have none: "map_of xs rid = None"
    using nin by (simp add: map_of_eq_None_iff)
  obtain ar' out' where step: "disconnect_room c x (ar, out) = (ar', out')"
    by (cases "disconnect_room c x (ar, out)")
  have ih: "DAList.lookup (fst (fold (disconnect_room c) xs (ar', out'))) k =
     (case map_of xs k of
        None \<Rightarrow> DAList.lookup ar' k
      | Some room \<Rightarrow>
          if c = host_id room then None
          else if c |\<in>| viewers room then Some (remove_viewer c room)
          else DAList.lookup ar' k)"
    by (rule Cons.IH [OF d])
  show ?case
  proof (cases "k = rid")
    case True
    have "DAList.lookup ar' rid =
        (if c = host_id room then None
         else if c |\<in>| viewers room then Some (remove_viewer c room)
         else DAList.lookup ar rid)"
      using step x by (auto simp: Let_def split: if_splits)
    then show ?thesis
      using ih step x True none by simp
  next
    case False
    have "DAList.lookup ar' k = DAList.lookup ar k"
      using step x False by (auto simp: Let_def split: if_splits)
    then show ?thesis
      using ih step x False by (simp split: option.splits)
  qed
qed

lemma handle_disconnect_unfold:
  "handle_disconnect c s =
     (s\<lparr>active_rooms := fst (fold (disconnect_room c) (DAList.impl_of (active_rooms s)) (active_rooms s, []))\<rparr>,
      snd (fold (disconnect_room c) (DAList.impl_of (active_rooms s)) (active_rooms s, [])))"
  by (simp add: handle_disconnect_def split_def Let_def)

lemma disconnect_lookup:
  "DAList.lookup (active_rooms (fst (handle_disconnect c s))) k =
     (case DAList.lookup (active_rooms s) k of
        None \<Rightarrow> None
      | Some room \<Rightarrow>
          if c = host_id room then None
          else if c |\<in>| viewers room then Some (remove_viewer c room)
          else Some room)"
proof -
  have "DAList.lookup (fst (fold (disconnect_room c) (DAList.impl_of (active_rooms s)) (active_rooms s, []))) k =
     (case map_of (DAList.impl_of (active_rooms s)) k of
        None \<Rightarrow> DAList.lookup (active_rooms s) k
      | Some room \<Rightarrow>
          if c = host_id room then None
          else if c |\<in>| viewers room then Some (remove_viewer c room)
          else DAList.lookup (active_rooms s) k)"
    by (rule fold_disconnect_lookup) simp
  then show ?thesis
    by (simp add: handle_disconnect_unfold DAList.lookup.rep_eq split: option.splits)
qed

lemma disconnect_out:
  "snd (handle_disconnect c s) = concat (map (room_emits c) (DAList.impl_of (active_rooms s)))"
  using fold_disconnect_out [of c "DAList.impl_of (active_rooms s)" "active_rooms s" "[]"]
  by (simp add: handle_disconnect_unfold)

lemma disconnect_frame:
  "stream_stats (fst (handle_disconnect c s)) = stream_stats s \<and>
   sio_rooms (fst (handle_disconnect c s)) = sio_rooms s"
  by (simp add: handle_disconnect_unfold)

lemma room_emits_filter:
  "filter (\<lambda>e. emit_room e = Some k) (room_emits c (rid, room)) =
     (if rid = k then room_emits c (k, room) else [])"
  by (simp add: room_emits_def Let_def)

lemma emits_to_room:
  "distinct (map fst xs) \<Longrightarrow>
   filter (\<lambda>e. emit_room e = Some k) (concat (map (room_emits c) xs)) =
     (case map_of xs k of None \<Rightarrow> [] | Some room \<Rightarrow> room_emits c (k, room))"
proof (induction xs)
  case Nil
  show ?case by simp
next
  case (Cons x xs)
  obtain rid room where x: "x = (rid, room)" by (cases x)
  have d: "distinct (map fst xs)" and nin: "rid \<notin> fst ` set xs"
    using Cons.prems x by auto
  have none: "map_of xs rid = None"
    using nin by (simp add: map_of_eq_None_iff)
  show ?case
    using Cons.IH [OF d] x none by (simp add: room_emits_filter)
qed

lemma disconnect_emits_to_room:
  "filter (\<lambda>e. emit_room e = Some k) (snd (handle_disconnect c s)) =
     (case DAList.lookup (active_rooms s) k of None \<Rightarrow> [] | Some room \<Rightarrow> room_emits c (k, room))"
  using emits_to_room [of "DAList.impl_of (active_rooms s)" k c]
  by (simp add: disconnect_out DAList.lookup.rep_eq)


lemma room_emits_viewer:
  "v \<noteq> host_id room \<Longrightarrow> v |\<in>| viewers room \<Longrightarrow>
   room_emits v (k, room) =
     [Emit ''viewer_left''
        [(''viewer_id'', JStr v), (''viewer_count'', JInt (get_viewer_count (remove_viewer v room)))]
        (ToRoom k True)]"
  by (simp add: room_emits_def Let_def)

lemma viewer_count_removed:
  "v |\<in>| viewers room \<Longrightarrow> get_viewer_count (remove_viewer v room) = get_viewer_count room - 1"
  using fcard_Suc_fminus1 [of v "viewers room"]
  by (simp add: get_viewer_count_def remove_viewer_def)

section \<open>Properties of the library calls\<close>

lemma dict_key_idem: "dict_key r = Inr k \<Longrightarrow> dict_key k = Inr k"
  by (cases r) (auto split: if_splits)

lemma fst_emit_last: "fst (emit_last s c out ev pl r b) = s"
  by (simp add: emit_last_def split: sum.splits)

lemma join_room_Inr:
  "join_room c r s = Inr s1 \<longleftrightarrow>
     (\<exists>k. dict_key r = Inr k \<and> \<not> sid_room s k \<and>
          s1 = s\<lparr>sio_rooms := (sio_rooms s)(k := finsert c (sio_rooms s k))\<rparr>)"
  by (auto simp: join_room_def split: sum.splits)

lemma participants_hashable:
  "dict_key r = Inr k \<Longrightarrow> \<exists>g. participants s c r = Inr g"
  by (cases r) (auto simp: participants_def)

lemma emit_last_hashable:
  "dict_key r = Inr k \<Longrightarrow>
   emit_last s c out ev pl r b = (s, out @ [Emit ev pl (ToRoom r b)], None)"
  using participants_hashable [of r k s c] by (auto simp: emit_last_def)

lemma emit_last_closed:
  "snd (snd (emit_last s c [] ev pl r b)) \<noteq> None \<Longrightarrow>
   fst (snd (emit_last s c [] ev pl r b)) = []"
  by (auto simp: emit_last_def split: sum.splits)

lemma participants_key:
  assumes "dict_key k = Inr k" and "k \<noteq> JNull"
  shows "participants s c k = Inr (if truthy k then sio_rooms s k else connected s)"
  using assms by (cases k) (auto simp: participants_def connected_def split: if_splits)

lemma addressees_key:
  assumes "dict_key k = Inr k" and "k \<noteq> JNull"
  shows "addressees s c (Emit ev pl (ToRoom k True)) = (if truthy k then sio_rooms s k else connected s)"
  using participants_key [OF assms, of s c] by simp

section \<open>Reachable states\<close>

lemma connected_frame:
  "connected (s\<lparr>active_rooms := ar\<rparr>) = connected s"
  "connected (s\<lparr>stream_stats := st\<rparr>) = connected s"
  by (simp_all add: connected_def)

lemma sid_room_frame:
  "sid_room (s\<lparr>active_rooms := ar\<rparr>) k = sid_room s k"
  "sid_room (s\<lparr>stream_stats := st\<rparr>) k = sid_room s k"
  by (simp_all add: sid_room_def connected_def split: json.splits)

lemma wf_lookupD:
  "wf_state s \<Longrightarrow> DAList.lookup (active_rooms s) k = Some room \<Longrightarrow>
   dict_key k = Inr k \<and> \<not> sid_room s k \<and>
   viewers room |\<subseteq>| sio_rooms s k \<and> host_id room |\<in>| sio_rooms s k"
  by (simp add: wf_state_def)

lemma wf_groupD: "wf_state s \<Longrightarrow> sio_rooms s k |\<subseteq>| connected s"
  by (simp add: wf_state_def)

lemma wf_sidD: "wf_state s \<Longrightarrow> c |\<in>| connected s \<Longrightarrow> c \<noteq> [] \<and> sio_rooms s (JStr c) = {|c|}"
  by (simp add: wf_state_def)

lemma wf_stateI:
  assumes "\<And>k room. DAList.lookup (active_rooms s) k = Some room \<Longrightarrow>
             dict_key k = Inr k \<and> \<not> sid_room s k \<and>
             viewers room |\<subseteq>| sio_rooms s k \<and> host_id room |\<in>| sio_rooms s k"
    and "\<And>k. sio_rooms s k |\<subseteq>| connected s"
    and "\<And>c. c |\<in>| connected s \<Longrightarrow> c \<noteq> [] \<and> sio_rooms s (JStr c) = {|c|}"
  shows "wf_state s"
  using assms unfolding wf_state_def by blast

lemma wf_init: "wf_state init_state"
  by (simp add: wf_state_def init_state_def connected_def)

lemma wf_update_room:
  assumes "wf_state s" and "DAList.lookup (active_rooms s) k = Some room"
    and "viewers room' = viewers room" and "host_id room' = host_id room"
  shows "wf_state (s\<lparr>active_rooms := DAList.update k room' (active_rooms s)\<rparr>)"
proof (rule wf_stateI)
  fix k' r
  assume "DAList.lookup (active_rooms (s\<lparr>active_rooms := DAList.update k room' (active_rooms s)\<rparr>)) k' = Some r"
  then have "(k' = k \<and> r = room') \<or> (k' \<noteq> k \<and> DAList.lookup (active_rooms s) k' = Some r)"
    by (auto simp: DAList.lookup_update split: if_splits)
  then show "dict_key k' = Inr k' \<and> \<not> sid_room (s\<lparr>active_rooms := DAList.update k room' (active_rooms s)\<rparr>) k' \<and>
      viewers r |\<subseteq>| sio_rooms (s\<lparr>active_rooms := DAList.update k room' (active_rooms s)\<rparr>) k' \<and>
      host_id r |\<in>| sio_rooms (s\<lparr>active_rooms := DAList.update k room' (active_rooms s)\<rparr>) k'"
    using wf_lookupD [OF assms(1)] assms(2,3,4)
    by (auto simp: sid_room_frame)
next
  fix k'
  show "sio_rooms (s\<lparr>active_rooms := DAList.update k room' (active_rooms s)\<rparr>) k' |\<subseteq>|
        connected (s\<lparr>active_rooms := DAList.update k room' (active_rooms s)\<rparr>)"
    using wf_groupD [OF assms(1), of k'] by (simp add: connected_def)
next
  fix c
  assume "c |\<in>| connected (s\<lparr>active_rooms := DAList.update k room' (active_rooms s)\<rparr>)"
  then show "c \<noteq> [] \<and> sio_rooms (s\<lparr>active_rooms := DAList.update k room' (active_rooms s)\<rparr>) (JStr c) = {|c|}"
    using wf_sidD [OF assms(1), of c] by (simp add: connected_def)
qed

lemma wf_enter:
  assumes wf: "wf_state s" and c: "c |\<in>| connected s" and k: "\<not> sid_room s k"
    and rooms: "\<And>k' room. DAList.lookup ar' k' = Some room \<Longrightarrow>
        (k' = k \<and> dict_key k = Inr k \<and> viewers room |\<subseteq>| finsert c (sio_rooms s k) \<and>
           host_id room |\<in>| finsert c (sio_rooms s k)) \<or>
        (k' \<noteq> k \<and> DAList.lookup (active_rooms s) k' = Some room)"
  shows "wf_state (s\<lparr>sio_rooms := (sio_rooms s)(k := finsert c (sio_rooms s k)), active_rooms := ar'\<rparr>)"
    (is "wf_state ?s'")
proof -
  have conn: "connected ?s' = connected s"
    using c by (auto simp: connected_def)
  have grp: "\<And>k'. sio_rooms ?s' k' = (if k' = k then finsert c (sio_rooms s k) else sio_rooms s k')"
    by simp
  have sidr: "\<And>k'. sid_room ?s' k' = sid_room s k'"
    unfolding sid_room_def conn ..
  show ?thesis
  proof (rule wf_stateI)
    fix k' room
    assume "DAList.lookup (active_rooms ?s') k' = Some room"
    then have "DAList.lookup ar' k' = Some room" by simp
    from rooms [OF this]
    show "dict_key k' = Inr k' \<and> \<not> sid_room ?s' k' \<and>
          viewers room |\<subseteq>| sio_rooms ?s' k' \<and> host_id room |\<in>| sio_rooms ?s' k'"
      unfolding sidr grp using k wf_lookupD [OF wf, of k' room] by auto
  next
    fix k'
    show "sio_rooms ?s' k' |\<subseteq>| connected ?s'"
      unfolding conn grp using wf_groupD [OF wf] c by auto
  next
    fix c'
    assume "c' |\<in>| connected ?s'"
    then have c': "c' |\<in>| connected s" unfolding conn .
    then have "JStr c' \<noteq> k"
      using k by (auto simp: sid_room_def)
    then show "c' \<noteq> [] \<and> sio_rooms ?s' (JStr c') = {|c'|}"
      using wf_sidD [OF wf c'] by simp
  qed
qed

lemma wf_create:
  assumes wf: "wf_state s" and c: "c |\<in>| connected s"
  shows "wf_state (fst (handle_create_room c now data s))"
proof (cases "join_room c (get data ''room_id'') s")
  case (Inl e)
  then show ?thesis using wf by (simp add: handle_create_room_def)
next
  case (Inr s1)
  then obtain k where k: "dict_key (get data ''room_id'') = Inr k" and ns: "\<not> sid_room s k"
    and s1: "s1 = s\<lparr>sio_rooms := (sio_rooms s)(k := finsert c (sio_rooms s k))\<rparr>"
    by (auto simp: join_room_Inr)
  have "wf_state (s\<lparr>sio_rooms := (sio_rooms s)(k := finsert c (sio_rooms s k)),
                   active_rooms := DAList.update k (StreamRoom_init (get data ''room_id'') c now) (active_rooms s)\<rparr>)"
    using wf c ns
  proof (rule wf_enter)
    fix k' room
    assume "DAList.lookup (DAList.update k (StreamRoom_init (get data ''room_id'') c now) (active_rooms s)) k' = Some room"
    then show "(k' = k \<and> dict_key k = Inr k \<and> viewers room |\<subseteq>| finsert c (sio_rooms s k) \<and>
           host_id room |\<in>| finsert c (sio_rooms s k)) \<or>
        (k' \<noteq> k \<and> DAList.lookup (active_rooms s) k' = Some room)"
      using dict_key_idem [OF k]
      by (auto simp: DAList.lookup_update StreamRoom_init_def split: if_splits)
  qed
  then show ?thesis
    using Inr k s1 by (simp add: handle_create_room_def Let_def)
qed

lemma wf_join:
  assumes wf: "wf_state s" and c: "c |\<in>| connected s"
  shows "wf_state (fst (handle_join_room c data s))"
proof (cases "dict_key (get data ''room_id'')")
  case (Inl e)
  then show ?thesis using wf by (simp add: handle_join_room_def)
next
  case (Inr k)
  show ?thesis
  proof (cases "DAList.lookup (active_rooms s) k")
    case None
    then show ?thesis using wf Inr by (simp add: handle_join_room_def)
  next
    case (Some room)
    show ?thesis
    proof (cases "join_room c (get data ''room_id'') s")
      case (Inl e)
      then show ?thesis using wf Inr Some by (simp add: handle_join_room_def)
    next
      case (Inr s1)
      then have ns: "\<not> sid_room s k"
        and s1: "s1 = s\<lparr>sio_rooms := (sio_rooms s)(k := finsert c (sio_rooms s k))\<rparr>"
        using \<open>dict_key (get data ''room_id'') = Inr k\<close> by (auto simp: join_room_Inr)
      have "wf_state (s\<lparr>sio_rooms := (sio_rooms s)(k := finsert c (sio_rooms s k)),
                       active_rooms := DAList.update k (add_viewer c room) (active_rooms s)\<rparr>)"
        using wf c ns
      proof (rule wf_enter)
        fix k' r
        assume "DAList.lookup (DAList.update k (add_viewer c room) (active_rooms s)) k' = Some r"
        then show "(k' = k \<and> dict_key k = Inr k \<and> viewers r |\<subseteq>| finsert c (sio_rooms s k) \<and>
               host_id r |\<in>| finsert c (sio_rooms s k)) \<or>
            (k' \<noteq> k \<and> DAList.lookup (active_rooms s) k' = Some r)"
          using wf_lookupD [OF wf Some]
          by (auto simp: DAList.lookup_update add_viewer_def split: if_splits)
      qed
      then show ?thesis
        using Inr \<open>dict_key (get data ''room_id'') = Inr k\<close> Some s1
        by (simp add: handle_join_room_def Let_def fst_emit_last)
    qed
  qed
qed

lemma wf_start: "wf_state s \<Longrightarrow> wf_state (fst (handle_start_stream c data s))"
  by (auto simp: handle_start_stream_def Let_def fst_emit_last wf_update_room
      split: sum.splits option.splits)

lemma wf_stop: "wf_state s \<Longrightarrow> wf_state (fst (handle_stop_stream c data s))"
  by (auto simp: handle_stop_stream_def Let_def fst_emit_last wf_update_room
      split: sum.splits option.splits)

lemma wf_chat: "wf_state s \<Longrightarrow> wf_state (fst (handle_chat_message c hms data s))"
  by (auto simp: handle_chat_message_def Let_def fst_emit_last wf_update_room
      split: sum.splits option.splits)

lemma wf_stats: "wf_state s \<Longrightarrow> wf_state (fst (handle_stream_stats ts data s))"
  by (auto simp: handle_stream_stats_def Let_def wf_state_def sid_room_frame connected_frame
      split: sum.splits)

lemma wf_dispatch:
  "wf_state s \<Longrightarrow> c |\<in>| connected s \<Longrightarrow> wf_state (fst (dispatch clk c ev d s))"
  by (cases ev)
     (simp_all add: wf_create wf_join wf_start wf_stop wf_chat wf_stats handle_offer_def
        handle_answer_def handle_ice_candidate_def handle_latency_ping_def fst_emit_last)

lemma wf_on_event:
  "wf_state s \<Longrightarrow> c |\<in>| connected s \<Longrightarrow> wf_state (fst (on_event clk c ev data s))"
  by (simp add: on_event_def wf_dispatch split: sum.splits)

lemma wf_connect:
  assumes wf: "wf_state s" and ne: "c \<noteq> []" and new: "c |\<notin>| connected s"
    and free: "sio_rooms s (JStr c) = {||}"
  shows "wf_state (s\<lparr>sio_rooms := (sio_rooms s)(JNull := finsert c (sio_rooms s JNull), JStr c := {|c|})\<rparr>)"
    (is "wf_state ?s'")
proof -
  have conn: "connected ?s' = finsert c (connected s)"
    by (simp add: connected_def)
  show ?thesis
  proof (rule wf_stateI)
    fix k room
    assume "DAList.lookup (active_rooms ?s') k = Some room"
    then have look: "DAList.lookup (active_rooms s) k = Some room" by simp
    note old = wf_lookupD [OF wf look]
    have kc: "k \<noteq> JStr c"
      using old free by auto
    have "\<not> sid_room ?s' k"
      using old kc unfolding sid_room_def conn by (auto split: json.splits)
    moreover have "sio_rooms s k |\<subseteq>| sio_rooms ?s' k"
      using kc by (auto simp: connected_def)
    ultimately show "dict_key k = Inr k \<and> \<not> sid_room ?s' k \<and>
        viewers room |\<subseteq>| sio_rooms ?s' k \<and> host_id room |\<in>| sio_rooms ?s' k"
      using old by auto
  next
    fix k
    show "sio_rooms ?s' k |\<subseteq>| connected ?s'"
      unfolding conn using wf_groupD [OF wf, of k] by (auto simp: connected_def)
  next
    fix c'
    assume "c' |\<in>| connected ?s'"
    then have "c' = c \<or> (c' \<noteq> c \<and> c' |\<in>| connected s)"
      unfolding conn using new by auto
    then show "c' \<noteq> [] \<and> sio_rooms ?s' (JStr c') = {|c'|}"
      using ne wf_sidD [OF wf, of c'] by auto
  qed
qed

lemma wf_disconnect:
  assumes wf: "wf_state s"
  shows "wf_state (sio_leave_all c (fst (handle_disconnect c s)))" (is "wf_state ?s'")
proof -
  have grp: "\<And>k. sio_rooms ?s' k = sio_rooms s k |-| {|c|}"
    by (simp add: sio_leave_all_def disconnect_frame)
  have conn: "connected ?s' = connected s |-| {|c|}"
    by (simp add: connected_def grp)
  show ?thesis
  proof (rule wf_stateI)
    fix k room'
    assume "DAList.lookup (active_rooms ?s') k = Some room'"
    then have "DAList.lookup (active_rooms (fst (handle_disconnect c s))) k = Some room'"
      by (simp add: sio_leave_all_def)
    then obtain room where room: "DAList.lookup (active_rooms s) k = Some room"
      and nh: "c \<noteq> host_id room"
      and room': "room' = (if c |\<in>| viewers room then remove_viewer c room else room)"
      by (auto simp: disconnect_lookup split: option.splits if_splits)
    note old = wf_lookupD [OF wf room]
    have "\<not> sid_room ?s' k"
      using old unfolding sid_room_def conn by (auto split: json.splits)
    moreover have "viewers room' |\<subseteq>| sio_rooms s k |-| {|c|}"
      using old room' by (auto simp: remove_viewer_def)
    moreover have "host_id room' |\<in>| sio_rooms s k |-| {|c|}"
      using old room' nh by (auto simp: remove_viewer_def)
    ultimately show "dict_key k = Inr k \<and> \<not> sid_room ?s' k \<and>
        viewers room' |\<subseteq>| sio_rooms ?s' k \<and> host_id room' |\<in>| sio_rooms ?s' k"
      using old unfolding grp by simp
  next
    fix k
    show "sio_rooms ?s' k |\<subseteq>| connected ?s'"
      unfolding grp conn using wf_groupD [OF wf, of k] by auto
  next
    fix c'
    assume "c' |\<in>| connected ?s'"
    then have "c' |\<in>| connected s" and "c' \<noteq> c"
      unfolding conn by auto
    then show "c' \<noteq> [] \<and> sio_rooms ?s' (JStr c') = {|c'|}"
      unfolding grp using wf_sidD [OF wf, of c'] by auto
  qed
qed

lemma wf_occur: "wf_state s \<Longrightarrow> wf_state (occur x s)"
  by (cases x) (simp_all add: wf_connect wf_disconnect wf_on_event handle_connect_def)

lemma wf_run: "wf_state s \<Longrightarrow> wf_state (run xs s)"
  unfolding run_def by (induction xs arbitrary: s) (simp_all add: wf_occur)

lemma wf_reachable: "wf_state (run xs init_state)"
  by (rule wf_run) (rule wf_init)

lemma participants_sid:
  assumes "wf_state s" and "t |\<in>| connected s"
  shows "participants s c (JStr t) = Inr {|t|}"
  using wf_sidD [OF assms] by (simp add: participants_def)

lemma addressees_sender:
  assumes "wf_state s" and "c |\<in>| connected s"
  shows "addressees s c (Emit ev pl ToSender) = {|c|}"
  using wf_sidD [OF assms] by simp

section \<open>The example states, evaluated\<close>

lemmas handler_defs = handle_create_room_def handle_join_room_def handle_start_stream_def
  handle_stop_stream_def handle_offer_def handle_answer_def handle_ice_candidate_def
  handle_chat_message_def handle_latency_ping_def handle_stream_stats_def handle_connect_def

lemmas eval_defs = run_def on_event_def handler_defs init_state_def clock0_def get_def
  get_default_def join_room_def sid_room_def connected_def emit_last_def participants_def
  StreamRoom_init_def add_viewer_def stats_entry_def join_r1_def Let_def

lemma state_r1_rooms: "active_rooms state_r1 = DAList.update (JStr ''r1'') room_r1 DAList.empty"
  by (simp add: state_r1_def eval_defs room_r1_def finsert_commute)

lemma state_r1_stats: "stream_stats state_r1 =
   [JStr ''r1'' \<mapsto> [[(''timestamp'', JStr ''2025-01-01T00:00:01''), (''stats'', JInt 7)]]]"
  by (simp add: state_r1_def eval_defs)

lemma state_r1_connected: "connected state_r1 = {|''A'', ''B'', ''C'', ''D''|}"
  by (simp add: state_r1_def eval_defs finsert_commute)

lemma state_r1_group: "sio_rooms state_r1 (JStr ''r1'') = {|''A'', ''B'', ''C''|}"
  by (simp add: state_r1_def eval_defs finsert_commute)

lemma state_r1_lookup: "DAList.lookup (active_rooms state_r1) (JStr ''r1'') = Some room_r1"
  by (simp add: state_r1_rooms)

lemma state_r1_host_joined_rooms:
  "active_rooms state_r1_host_joined = DAList.update (JStr ''r1'') (add_viewer ''A'' room_r1) DAList.empty"
  by (simp add: state_r1_host_joined_def run_def on_event_def handle_join_room_def get_def
      get_default_def join_r1_def join_room_def sid_room_def state_r1_connected state_r1_rooms
      emit_last_def participants_def Let_def)

lemma state_r1_again_rooms:
  "active_rooms state_r1_again = DAList.update (JStr ''r1'') room_r1_again DAList.empty"
  by (simp add: state_r1_again_def state_r1_def eval_defs room_r1_again_def finsert_commute)

lemma state_r1_again_group: "sio_rooms state_r1_again (JStr ''r1'') = {|''A'', ''B'', ''C'', ''D'', ''E''|}"
  by (simp add: state_r1_again_def state_r1_def eval_defs finsert_commute)

lemma state_null_rooms: "active_rooms state_null = DAList.update JNull room_null DAList.empty"
  by (simp add: state_null_def eval_defs room_null_def finsert_commute)

lemma state_null_own_group:
  "sio_rooms state_null (JStr ''A'') = {|''A''|}" "sio_rooms state_null (JStr ''B'') = {|''B''|}"
  by (simp_all add: state_null_def eval_defs)

lemma state_r1_D: "''D'' |\<in>| connected state_r1"
  by (simp add: state_r1_connected)

lemma state_r1_A: "''A'' |\<in>| connected state_r1"
  by (simp add: state_r1_connected)

section \<open>Slices and the stats log\<close>

lemma slice_last_short: "length xs \<le> n \<Longrightarrow> slice_last n xs = xs"
  by (simp add: slice_last_def)

lemma slice_last_append:
  assumes "0 < n"
  shows "slice_last n (slice_last n xs @ ys) = slice_last n (xs @ ys)"
proof (cases "length xs \<le> n")
  case True
  then show ?thesis by (simp add: slice_last_short)
next
  case False
  then have "length xs + length ys - (length xs - n + n) + (length xs - n) = length xs + length ys - n"
    by simp
  then show ?thesis
    using assms by (simp add: slice_last_def)
qed

lemma length_slice_last: "0 < n \<Longrightarrow> length (slice_last n xs) \<le> n"
  by (simp add: slice_last_def)

lemma stats_step:
  assumes "dict_key (get data ''room_id'') = Inr k"
  shows "handle_stream_stats ts data s =
           (s\<lparr>stream_stats := (stream_stats s)(k \<mapsto> slice_last 100 (stats_log s k @ [stats_entry ts data]))\<rparr>,
            [], None)"
  using assms
  by (simp add: handle_stream_stats_def Let_def stats_log_def slice_last_short split: option.splits)

lemma stats_events_log:
  assumes "\<forall>(ts, data) \<in> set evs. dict_key (get data ''room_id'') = Inr k"
    and "evs \<noteq> []"
  shows "stream_stats (stats_events evs s) k =
           Some (slice_last 100 (stats_log s k @ map (\<lambda>(ts, data). stats_entry ts data) evs))"
  using assms
proof (induction evs arbitrary: s)
  case Nil
  then show ?case by simp
next
  case (Cons ev evs)
  obtain ts data where ev: "ev = (ts, data)" by (cases ev)
  have k: "dict_key (get data ''room_id'') = Inr k"
    using Cons.prems(1) ev by simp
  define s' where "s' = s\<lparr>stream_stats := (stream_stats s)(k \<mapsto> slice_last 100 (stats_log s k @ [stats_entry ts data]))\<rparr>"
  have step: "stats_events (ev # evs) s = stats_events evs s'"
    using stats_step [OF k, of ts s] ev by (simp add: s'_def)
  have log': "stats_log s' k = slice_last 100 (stats_log s k @ [stats_entry ts data])"
    by (simp add: s'_def stats_log_def)
  show ?case
  proof (cases "evs = []")
    case True
    then show ?thesis using step ev by (simp add: s'_def)
  next
    case False
    have "\<forall>(ts, data) \<in> set evs. dict_key (get data ''room_id'') = Inr k"
      using Cons.prems(1) by simp
    then have "stream_stats (stats_events evs s') k =
        Some (slice_last 100 (stats_log s' k @ map (\<lambda>(ts, data). stats_entry ts data) evs))"
      using False by (rule Cons.IH)
    then show ?thesis
      using step ev log'
        slice_last_append [of 100 "stats_log s k @ [stats_entry ts data]"
          "map (\<lambda>(ts, data). stats_entry ts data) evs"]
      by simp
  qed
qed

section \<open>Exceptions and defaults\<close>

lemma dispatch_raise_closed:
  assumes "snd (snd (dispatch clk c ev d s)) \<noteq> None"
  shows "fst (dispatch clk c ev d s) = s \<and> fst (snd (dispatch clk c ev d s)) = []"
proof (cases ev)
  case Create_room
  then show ?thesis
    using assms
    by (auto simp: handle_create_room_def join_room_def Let_def split: sum.splits if_splits)
next
  case Join_room
  then show ?thesis
    using assms
    by (auto simp: handle_join_room_def Let_def emit_last_hashable split: sum.splits option.splits)
next
  case Start_stream
  then show ?thesis
    using assms
    by (auto simp: handle_start_stream_def Let_def emit_last_hashable split: sum.splits option.splits)
next
  case Stop_stream
  then show ?thesis
    using assms
    by (auto simp: handle_stop_stream_def Let_def emit_last_hashable split: sum.splits option.splits)
next
  case Offer
  then show ?thesis
    using assms by (simp add: handle_offer_def fst_emit_last emit_last_closed)
next
  case Answer
  then show ?thesis
    using assms by (simp add: handle_answer_def fst_emit_last emit_last_closed)
next
  case Ice_candidate
  then show ?thesis
    using assms by (simp add: handle_ice_candidate_def fst_emit_last emit_last_closed)
next
  case Chat_message
  then show ?thesis
    using assms
    by (auto simp: handle_chat_message_def Let_def emit_last_hashable split: sum.splits option.splits)
next
  case Latency_ping
  then show ?thesis
    using assms by (simp add: handle_latency_ping_def)
next
  case Stream_stats
  then show ?thesis
    using assms by (auto simp: handle_stream_stats_def Let_def split: sum.splits)
qed

lemma get_with_default:
  "data f = None \<Longrightarrow> g \<noteq> ''username'' \<Longrightarrow> get (data(f \<mapsto> field_default f)) g = get data g"
  by (simp add: get_def field_default_def)

lemma get_default_with_default:
  "data f = None \<Longrightarrow>
   get_default (data(f \<mapsto> field_default f)) ''username'' (JStr ''Anonymous'') =
     get_default data ''username'' (JStr ''Anonymous'')"
  by (simp add: get_default_def field_default_def)

lemma dispatch_with_default:
  assumes "d f = None"
  shows "dispatch clk c ev d s = dispatch clk c ev (d(f \<mapsto> field_default f)) s"
  using assms
  by (cases ev)
     (simp_all add: handle_create_room_def handle_join_room_def handle_start_stream_def
        handle_stop_stream_def handle_offer_def handle_answer_def handle_ice_candidate_def
        handle_chat_message_def handle_latency_ping_def handle_stream_stats_def stats_entry_def
        get_with_default get_default_with_default Let_def cong: sum.case_cong option.case_cong)

section \<open>Host disconnect\<close>




section \<open>Joining a room that does not exist\<close>

text \<open>
  C2, as stated, fails for a \<open>room_id\<close> that is a list or a dict: it names no active room,
  yet the test \<open>room_id not in active_rooms\<close> raises \<open>TypeError\<close> and no \<open>error\<close> event is
  emitted.
\<close>

theorem join_room_unhashable_counterexample:
  "named_room state_r1 (JObj [(''room_id'', JArr [])]) = None \<and>
   on_event clock0 ''D'' Join_room (JObj [(''room_id'', JArr [])]) state_r1 =
     (state_r1, [], Some TypeError)"
  by (simp add: named_room_def on_event_def handle_join_room_def get_def)

text \<open>
  C2, amended. In every state the server reaches, a \<open>join_room\<close> whose payload is a dict
  and whose \<open>room_id\<close> can be a dict key (it is absent, null, a boolean, a number or a
  string) but is not a key of \<open>active_rooms\<close> emits exactly one event, \<open>error\<close> with the
  message \<open>Room not found\<close>, addressed to the sender and to nobody else, and leaves the
  state as it was: room table, viewer sets, logs and groups are untouched.
\<close>

theorem join_room_absent_error:
  assumes "as_dict data = Inr d"
    and "dict_key (get d ''room_id'') = Inr k"
    and "DAList.lookup (active_rooms s) k = None"
    and "s = run xs init_state"
    and "c |\<in>| connected s"
  shows "on_event clk c Join_room data s =
           (s, [Emit ''error'' [(''message'', JStr ''Room not found'')] ToSender], None) \<and>
         addressees s c (Emit ''error'' [(''message'', JStr ''Room not found'')] ToSender) = {|c|}"
proof -
  have wf: "wf_state s"
    unfolding assms(4) by (rule wf_reachable)
  show ?thesis
    using assms(1,2,3) addressees_sender [OF wf assms(5)]
    by (simp add: on_event_def handle_join_room_def)
qed

theorem join_room_absent_error_witness:
  "as_dict (JObj [(''room_id'', JStr ''zz'')]) = Inr [''room_id'' \<mapsto> JStr ''zz''] \<and>
   dict_key (get [''room_id'' \<mapsto> JStr ''zz''] ''room_id'') = Inr (JStr ''zz'') \<and>
   DAList.lookup (active_rooms state_r1) (JStr ''zz'') = None \<and>
   ''D'' |\<in>| connected state_r1 \<and>
   on_event clock0 ''D'' Join_room (JObj [(''room_id'', JStr ''zz'')]) state_r1 =
     (state_r1, [Emit ''error'' [(''message'', JStr ''Room not found'')] ToSender], None) \<and>
   addressees state_r1 ''D'' (Emit ''error'' [(''message'', JStr ''Room not found'')] ToSender) = {|''D''|}"
proof -
  have d: "as_dict (JObj [(''room_id'', JStr ''zz'')]) = Inr [''room_id'' \<mapsto> JStr ''zz'']"
    by simp
  have k: "dict_key (get [''room_id'' \<mapsto> JStr ''zz''] ''room_id'') = Inr (JStr ''zz'')"
    by (simp add: get_def)
  have absent: "DAList.lookup (active_rooms state_r1) (JStr ''zz'') = None"
    by (simp add: state_r1_rooms)
  show ?thesis
    using d k absent state_r1_D
      join_room_absent_error [OF d k absent state_r1_def state_r1_D, of clock0]
    by blast
qed

section \<open>Viewer disconnect\<close>

text \<open>
  C3, as stated, fails in three ways. A host that has joined its own room is in its viewer
  set, and its disconnect takes the host branch and deletes the room. After \<open>r1\<close> has been
  created a second time, the group \<open>r1\<close> still holds the connections of the first room, so
  \<open>viewer_left\<close> for the new room is addressed to \<open>A\<close>, which is neither its host nor one of
  its viewers. And for the room stored under \<open>None\<close>, \<open>viewer_left\<close> is emitted with
  \<open>room=None\<close> and the remaining viewer \<open>C\<close> is not among the addressees.
\<close>

theorem viewer_disconnect_counterexample:
  "DAList.lookup (active_rooms state_r1_host_joined) (JStr ''r1'') = Some (add_viewer ''A'' room_r1) \<and>
   ''A'' |\<in>| viewers (add_viewer ''A'' room_r1) \<and>
   DAList.lookup (active_rooms (fst (handle_disconnect ''A'' state_r1_host_joined))) (JStr ''r1'') = None \<and>
   DAList.lookup (active_rooms state_r1_again) (JStr ''r1'') = Some room_r1_again \<and>
   ''E'' |\<in>| viewers room_r1_again \<and> ''E'' \<noteq> host_id room_r1_again \<and>
   snd (handle_disconnect ''E'' state_r1_again) =
     [Emit ''viewer_left'' [(''viewer_id'', JStr ''E''), (''viewer_count'', JInt 1)]
        (ToRoom (JStr ''r1'') True)] \<and>
   ''A'' |\<in>| addressees state_r1_again ''E''
               (Emit ''viewer_left'' [(''viewer_id'', JStr ''E''), (''viewer_count'', JInt 1)]
                  (ToRoom (JStr ''r1'') True)) \<and>
   ''A'' \<noteq> host_id room_r1_again \<and> ''A'' |\<notin>| viewers room_r1_again \<and>
   DAList.lookup (active_rooms state_null) JNull = Some room_null \<and>
   ''B'' |\<in>| viewers room_null \<and> ''B'' \<noteq> host_id room_null \<and>
   snd (handle_disconnect ''B'' state_null) =
     [Emit ''viewer_left'' [(''viewer_id'', JStr ''B''), (''viewer_count'', JInt 1)]
        (ToRoom JNull True)] \<and>
   ''C'' |\<in>| viewers room_null |-| {|''B''|} \<and>
   ''C'' |\<notin>| addressees state_null ''B''
                 (Emit ''viewer_left'' [(''viewer_id'', JStr ''B''), (''viewer_count'', JInt 1)]
                    (ToRoom JNull True))"
proof -
  have one: "DAList.lookup (active_rooms state_r1_host_joined) (JStr ''r1'') = Some (add_viewer ''A'' room_r1) \<and>
      ''A'' |\<in>| viewers (add_viewer ''A'' room_r1) \<and>
      DAList.lookup (active_rooms (fst (handle_disconnect ''A'' state_r1_host_joined))) (JStr ''r1'') = None"
    by (simp add: disconnect_lookup state_r1_host_joined_rooms add_viewer_def room_r1_def)
  have two: "DAList.lookup (active_rooms state_r1_again) (JStr ''r1'') = Some room_r1_again \<and>
      ''E'' |\<in>| viewers room_r1_again \<and> ''E'' \<noteq> host_id room_r1_again \<and>
      snd (handle_disconnect ''E'' state_r1_again) =
        [Emit ''viewer_left'' [(''viewer_id'', JStr ''E''), (''viewer_count'', JInt 1)]
           (ToRoom (JStr ''r1'') True)] \<and>
      ''A'' |\<in>| addressees state_r1_again ''E''
                  (Emit ''viewer_left'' [(''viewer_id'', JStr ''E''), (''viewer_count'', JInt 1)]
                     (ToRoom (JStr ''r1'') True)) \<and>
      ''A'' \<noteq> host_id room_r1_again \<and> ''A'' |\<notin>| viewers room_r1_again"
    by (simp add: state_r1_again_rooms room_r1_again_def disconnect_out room_emits_def
        DAList.update.rep_eq DAList.empty.rep_eq participants_def state_r1_again_group
        remove_viewer_def get_viewer_count_def fcard_finsert_if)
  have three: "DAList.lookup (active_rooms state_null) JNull = Some room_null \<and>
      ''B'' |\<in>| viewers room_null \<and> ''B'' \<noteq> host_id room_null \<and>
      snd (handle_disconnect ''B'' state_null) =
        [Emit ''viewer_left'' [(''viewer_id'', JStr ''B''), (''viewer_count'', JInt 1)]
           (ToRoom JNull True)] \<and>
      ''C'' |\<in>| viewers room_null |-| {|''B''|} \<and>
      ''C'' |\<notin>| addressees state_null ''B''
                    (Emit ''viewer_left'' [(''viewer_id'', JStr ''B''), (''viewer_count'', JInt 1)]
                       (ToRoom JNull True))"
    by (simp add: state_null_rooms room_null_def disconnect_out room_emits_def
        DAList.update.rep_eq DAList.empty.rep_eq participants_def state_null_own_group
        remove_viewer_def get_viewer_count_def fcard_finsert_if)
  show ?thesis
    using one two three by blast
qed

text \<open>
  C3, amended. In every state the server reaches, when a viewer \<open>v\<close> of a room stored under
  a key \<open>k\<close> other than \<open>None\<close>, \<open>v\<close> not being its host, disconnects, the room stays in the
  table with \<open>v\<close> removed from its viewer set and every other field as before, its viewer
  count is one less, and the events emitted with the room argument \<open>k\<close> are exactly one
  \<open>viewer_left\<close> carrying \<open>v\<close> and the new count. Its addressees are the members of the group
  \<open>k\<close> (every connected client when \<open>k\<close> is \<open>0\<close> or the empty string): they include every
  remaining viewer, and may include connections that are no members of the room.
\<close>

theorem viewer_disconnect_keeps_room:
  assumes "DAList.lookup (active_rooms s) k = Some room"
    and "v |\<in>| viewers room"
    and "v \<noteq> host_id room"
    and "k \<noteq> JNull"
    and "s = run xs init_state"
  shows "DAList.lookup (active_rooms (fst (handle_disconnect v s))) k =
           Some (room\<lparr>viewers := viewers room |-| {|v|}\<rparr>) \<and>
         get_viewer_count (room\<lparr>viewers := viewers room |-| {|v|}\<rparr>) = get_viewer_count room - 1 \<and>
         filter (\<lambda>e. emit_room e = Some k) (snd (handle_disconnect v s)) =
           [Emit ''viewer_left''
              [(''viewer_id'', JStr v), (''viewer_count'', JInt (get_viewer_count room - 1))]
              (ToRoom k True)] \<and>
         addressees s v
           (Emit ''viewer_left''
              [(''viewer_id'', JStr v), (''viewer_count'', JInt (get_viewer_count room - 1))]
              (ToRoom k True)) =
           (if truthy k then sio_rooms s k else connected s) \<and>
         viewers room |-| {|v|} |\<subseteq>| (if truthy k then sio_rooms s k else connected s)"
proof -
  have wf: "wf_state s"
    unfolding assms(5) by (rule wf_reachable)
  note old = wf_lookupD [OF wf assms(1)]
  have look: "DAList.lookup (active_rooms (fst (handle_disconnect v s))) k =
      Some (room\<lparr>viewers := viewers room |-| {|v|}\<rparr>)"
    using assms(1,2,3) by (simp add: disconnect_lookup remove_viewer_def)
  have cnt: "get_viewer_count (room\<lparr>viewers := viewers room |-| {|v|}\<rparr>) = get_viewer_count room - 1"
    using viewer_count_removed [OF assms(2)] by (simp add: remove_viewer_def)
  have "filter (\<lambda>e. emit_room e = Some k) (snd (handle_disconnect v s)) = room_emits v (k, room)"
    using assms(1) by (simp add: disconnect_emits_to_room)
  then have out: "filter (\<lambda>e. emit_room e = Some k) (snd (handle_disconnect v s)) =
      [Emit ''viewer_left''
         [(''viewer_id'', JStr v), (''viewer_count'', JInt (get_viewer_count room - 1))]
         (ToRoom k True)]"
    using room_emits_viewer [OF assms(3,2), of k] viewer_count_removed [OF assms(2)] by simp
  have addr: "addressees s v
      (Emit ''viewer_left''
         [(''viewer_id'', JStr v), (''viewer_count'', JInt (get_viewer_count room - 1))]
         (ToRoom k True)) = (if truthy k then sio_rooms s k else connected s)"
    using old addressees_key [of k s v, OF _ assms(4)] by simp
  have grp: "viewers room |-| {|v|} |\<subseteq>| (if truthy k then sio_rooms s k else connected s)"
    using old wf_groupD [OF wf, of k] by auto
  show ?thesis
    using look cnt out addr grp by simp
qed

theorem viewer_disconnect_keeps_room_witness:
  "DAList.lookup (active_rooms state_r1) (JStr ''r1'') = Some room_r1 \<and>
   ''B'' |\<in>| viewers room_r1 \<and> ''B'' \<noteq> host_id room_r1 \<and> JStr ''r1'' \<noteq> JNull \<and>
   DAList.lookup (active_rooms (fst (handle_disconnect ''B'' state_r1))) (JStr ''r1'') =
     Some (room_r1\<lparr>viewers := {|''C''|}\<rparr>) \<and>
   get_viewer_count (room_r1\<lparr>viewers := {|''C''|}\<rparr>) = 1 \<and>
   filter (\<lambda>e. emit_room e = Some (JStr ''r1'')) (snd (handle_disconnect ''B'' state_r1)) =
     [Emit ''viewer_left'' [(''viewer_id'', JStr ''B''), (''viewer_count'', JInt 1)]
        (ToRoom (JStr ''r1'') True)] \<and>
   addressees state_r1 ''B''
     (Emit ''viewer_left'' [(''viewer_id'', JStr ''B''), (''viewer_count'', JInt 1)]
        (ToRoom (JStr ''r1'') True)) = {|''A'', ''B'', ''C''|} \<and>
   {|''C''|} |\<subseteq>| {|''A'', ''B'', ''C''|}"
proof -
  have inB: "''B'' |\<in>| viewers room_r1" and nh: "''B'' \<noteq> host_id room_r1"
    by (simp_all add: room_r1_def)
  have nn: "JStr ''r1'' \<noteq> JNull"
    by simp
  have rest: "viewers room_r1 |-| {|''B''|} = {|''C''|}"
    by (auto simp: room_r1_def)
  have cnt: "get_viewer_count room_r1 - 1 = 1"
    by (simp add: get_viewer_count_def room_r1_def fcard_finsert_if)
  have grp: "(if truthy (JStr ''r1'') then sio_rooms state_r1 (JStr ''r1'') else connected state_r1) =
      {|''A'', ''B'', ''C''|}"
    by (simp add: state_r1_group)
  have "DAList.lookup (active_rooms (fst (handle_disconnect ''B'' state_r1))) (JStr ''r1'') =
          Some (room_r1\<lparr>viewers := {|''C''|}\<rparr>) \<and>
        get_viewer_count (room_r1\<lparr>viewers := {|''C''|}\<rparr>) = 1 \<and>
        filter (\<lambda>e. emit_room e = Some (JStr ''r1'')) (snd (handle_disconnect ''B'' state_r1)) =
          [Emit ''viewer_left'' [(''viewer_id'', JStr ''B''), (''viewer_count'', JInt 1)]
             (ToRoom (JStr ''r1'') True)] \<and>
        addressees state_r1 ''B''
          (Emit ''viewer_left'' [(''viewer_id'', JStr ''B''), (''viewer_count'', JInt 1)]
             (ToRoom (JStr ''r1'') True)) = {|''A'', ''B'', ''C''|} \<and>
        {|''C''|} |\<subseteq>| {|''A'', ''B'', ''C''|}"
    using viewer_disconnect_keeps_room [OF state_r1_lookup inB nh nn state_r1_def]
    unfolding rest cnt grp .
  then show ?thesis
    using state_r1_lookup inB nh nn by blast
qed

section \<open>The stats log\<close>

text \<open>
  C4. After a non-empty sequence of \<open>stream_stats\<close> messages for the key \<open>k\<close> the log of \<open>k\<close>
  is the last 100 entries of the earlier log followed by the new entries, in order of
  arrival, and so holds at most 100 entries; after 150 such messages it is exactly the
  last 100 of the 150 appended entries, the first 50 having been dropped.
\<close>

theorem stats_log_keeps_last_100:
  assumes "\<forall>(ts, data) \<in> set evs. dict_key (get data ''room_id'') = Inr k"
  shows "(evs \<noteq> [] \<longrightarrow>
            stream_stats (stats_events evs s) k =
              Some (slice_last 100 (stats_log s k @ map (\<lambda>(ts, data). stats_entry ts data) evs)) \<and>
            length (stats_log (stats_events evs s) k) \<le> 100) \<and>
         (length evs = 150 \<longrightarrow>
            stream_stats (stats_events evs s) k =
              Some (drop 50 (map (\<lambda>(ts, data). stats_entry ts data) evs)) \<and>
            length (stats_log (stats_events evs s) k) = 100)"
proof -
  have gen: "stream_stats (stats_events evs s) k =
      Some (slice_last 100 (stats_log s k @ map (\<lambda>(ts, data). stats_entry ts data) evs))"
    if "evs \<noteq> []"
    using assms that by (rule stats_events_log)
  have len: "length (stats_log (stats_events evs s) k) \<le> 100" if "evs \<noteq> []"
    using gen [OF that] by (simp add: stats_log_def length_slice_last)
  have last: "slice_last 100 (stats_log s k @ map (\<lambda>(ts, data). stats_entry ts data) evs) =
      drop 50 (map (\<lambda>(ts, data). stats_entry ts data) evs)" if "length evs = 150"
    using that by (simp add: slice_last_def)
  have ne: "evs \<noteq> []" if "length evs = 150"
    using that by auto
  show ?thesis
    using gen len last ne by (auto simp: stats_log_def)
qed

theorem stats_log_keeps_last_100_witness:
  "list_all (\<lambda>(ts, data). dict_key (get data ''room_id'') = Inr (JStr ''r1'')) (map stats_msg [0..<150]) \<and>
   map stats_msg [0..<150] \<noteq> [] \<and> length (map stats_msg [0..<150]) = 150 \<and>
   stream_stats (stats_events (map stats_msg [0..<150]) state_r1) (JStr ''r1'') =
     Some (map (\<lambda>i. [(''timestamp'', JStr ''2025-01-01T00:01:00''), (''stats'', JInt (int i))]) [50..<150]) \<and>
   length (stats_log (stats_events (map stats_msg [0..<150]) state_r1) (JStr ''r1'')) = 100"
proof -
  have keys: "\<forall>(ts, data) \<in> set (map stats_msg [0..<150]). dict_key (get data ''room_id'') = Inr (JStr ''r1'')"
    by (simp add: stats_msg_def get_def)
  have len: "length (map stats_msg [0..<150]) = 150"
    by simp
  have ne: "map stats_msg [0..<150] \<noteq> []"
    using len by auto
  have entry: "(\<lambda>(ts, data). stats_entry ts data) \<circ> stats_msg =
      (\<lambda>i. [(''timestamp'', JStr ''2025-01-01T00:01:00''), (''stats'', JInt (int i))])"
    by (simp add: fun_eq_iff stats_msg_def stats_entry_def get_def)
  have dropped: "drop 50 (map (\<lambda>(ts, data). stats_entry ts data) (map stats_msg [0..<150])) =
      map (\<lambda>i. [(''timestamp'', JStr ''2025-01-01T00:01:00''), (''stats'', JInt (int i))]) [50..<150]"
    by (simp only: map_map entry drop_map drop_upt add_0)
  have "stream_stats (stats_events (map stats_msg [0..<150]) state_r1) (JStr ''r1'') =
          Some (drop 50 (map (\<lambda>(ts, data). stats_entry ts data) (map stats_msg [0..<150]))) \<and>
        length (stats_log (stats_events (map stats_msg [0..<150]) state_r1) (JStr ''r1'')) = 100"
    using stats_log_keeps_last_100 [OF keys, of state_r1] len by blast
  moreover have "list_all (\<lambda>(ts, data). dict_key (get data ''room_id'') = Inr (JStr ''r1''))
      (map stats_msg [0..<150])"
    using keys by (simp only: list_all_iff)
  ultimately show ?thesis
    using ne len by (simp only: dropped) blast
qed

section \<open>Signalling relays\<close>

text \<open>
  C5, as stated, fails when \<open>target_id\<close> is not the id of a connection. With the name of
  a room as target the offer is addressed to every member of its group (\<open>A\<close>, \<open>B\<close> and
  \<open>C\<close> for \<open>r1\<close>); with the empty string it is addressed to every connected client; and
  with a non-empty dict \<open>emit\<close> raises \<open>KeyError\<close> and nothing is sent.
\<close>

theorem relay_counterexample:
  "handle_offer ''D'' [''target_id'' \<mapsto> JStr ''r1'', ''offer'' \<mapsto> JStr ''sdp''] state_r1 =
     (state_r1,
      [Emit ''offer'' [(''offer'', JStr ''sdp''), (''sender_id'', JStr ''D'')] (ToRoom (JStr ''r1'') True)],
      None) \<and>
   addressees state_r1 ''D''
     (Emit ''offer'' [(''offer'', JStr ''sdp''), (''sender_id'', JStr ''D'')] (ToRoom (JStr ''r1'') True)) =
     {|''A'', ''B'', ''C''|} \<and>
   handle_offer ''D'' [''target_id'' \<mapsto> JStr '''', ''offer'' \<mapsto> JStr ''sdp''] state_r1 =
     (state_r1,
      [Emit ''offer'' [(''offer'', JStr ''sdp''), (''sender_id'', JStr ''D'')] (ToRoom (JStr '''') True)],
      None) \<and>
   addressees state_r1 ''D''
     (Emit ''offer'' [(''offer'', JStr ''sdp''), (''sender_id'', JStr ''D'')] (ToRoom (JStr '''') True)) =
     {|''A'', ''B'', ''C'', ''D''|} \<and>
   handle_offer ''D'' [''target_id'' \<mapsto> JObj [(''id'', JStr ''A'')], ''offer'' \<mapsto> JStr ''sdp''] state_r1 =
     (state_r1, [], Some KeyError)"
proof -
  have conn: "sio_rooms state_r1 JNull = {|''A'', ''B'', ''C'', ''D''|}"
    using state_r1_connected by (simp add: connected_def)
  show ?thesis
    by (simp add: handle_offer_def emit_last_def participants_def get_def state_r1_group conn)
qed

text \<open>
  C5, amended. In every state the server reaches, an \<open>offer\<close>, \<open>answer\<close> or
  \<open>ice_candidate\<close> from sender \<open>c\<close> whose \<open>target_id\<close> is the id \<open>t\<close> of a connected client
  emits exactly one event, whose payload is the value \<open>v\<close> sent under \<open>offer\<close>, \<open>answer\<close> or
  \<open>candidate\<close> plus the one field \<open>sender_id = c\<close>, and whose only addressee is \<open>t\<close>. This
  holds for every sender, whatever rooms \<open>c\<close> and \<open>t\<close> are in, and the state is left as it
  was.
\<close>

theorem relay_to_target_only:
  assumes "s = run xs init_state"
    and "t |\<in>| connected s"
    and "data ''target_id'' = Some (JStr t)"
  shows "(data ''offer'' = Some v \<longrightarrow>
            handle_offer c data s =
              (s, [Emit ''offer'' [(''offer'', v), (''sender_id'', JStr c)] (ToRoom (JStr t) True)], None)) \<and>
         (data ''answer'' = Some v \<longrightarrow>
            handle_answer c data s =
              (s, [Emit ''answer'' [(''answer'', v), (''sender_id'', JStr c)] (ToRoom (JStr t) True)], None)) \<and>
         (data ''candidate'' = Some v \<longrightarrow>
            handle_ice_candidate c data s =
              (s, [Emit ''ice_candidate'' [(''candidate'', v), (''sender_id'', JStr c)]
                     (ToRoom (JStr t) True)], None)) \<and>
         addressees s c (Emit ev pl (ToRoom (JStr t) True)) = {|t|}"
proof -
  have wf: "wf_state s"
    unfolding assms(1) by (rule wf_reachable)
  have p: "participants s c (JStr t) = Inr {|t|}"
    using wf assms(2) by (rule participants_sid)
  show ?thesis
    using assms(3) p
    by (simp add: handle_offer_def handle_answer_def handle_ice_candidate_def emit_last_def get_def)
qed

theorem relay_to_target_only_witness:
  "''A'' |\<in>| connected state_r1 \<and>
   handle_offer ''B'' [''target_id'' \<mapsto> JStr ''A'', ''offer'' \<mapsto> JStr ''sdp''] state_r1 =
     (state_r1,
      [Emit ''offer'' [(''offer'', JStr ''sdp''), (''sender_id'', JStr ''B'')] (ToRoom (JStr ''A'') True)],
      None) \<and>
   handle_answer ''B'' [''target_id'' \<mapsto> JStr ''A'', ''answer'' \<mapsto> JStr ''sdp''] state_r1 =
     (state_r1,
      [Emit ''answer'' [(''answer'', JStr ''sdp''), (''sender_id'', JStr ''B'')] (ToRoom (JStr ''A'') True)],
      None) \<and>
   handle_ice_candidate ''B'' [''target_id'' \<mapsto> JStr ''A'', ''candidate'' \<mapsto> JInt 5] state_r1 =
     (state_r1,
      [Emit ''ice_candidate'' [(''candidate'', JInt 5), (''sender_id'', JStr ''B'')] (ToRoom (JStr ''A'') True)],
      None) \<and>
   addressees state_r1 ''B''
     (Emit ''offer'' [(''offer'', JStr ''sdp''), (''sender_id'', JStr ''B'')] (ToRoom (JStr ''A'') True)) =
     {|''A''|}"
proof -
  have t1: "[''target_id'' \<mapsto> JStr ''A'', ''offer'' \<mapsto> JStr ''sdp''] ''target_id'' = Some (JStr ''A'')"
    and t2: "[''target_id'' \<mapsto> JStr ''A'', ''answer'' \<mapsto> JStr ''sdp''] ''target_id'' = Some (JStr ''A'')"
    and t3: "[''target_id'' \<mapsto> JStr ''A'', ''candidate'' \<mapsto> JInt 5] ''target_id'' = Some (JStr ''A'')"
    by simp_all
  have v1: "[''target_id'' \<mapsto> JStr ''A'', ''offer'' \<mapsto> JStr ''sdp''] ''offer'' = Some (JStr ''sdp'')"
    and v2: "[''target_id'' \<mapsto> JStr ''A'', ''answer'' \<mapsto> JStr ''sdp''] ''answer'' = Some (JStr ''sdp'')"
    and v3: "[''target_id'' \<mapsto> JStr ''A'', ''candidate'' \<mapsto> JInt 5] ''candidate'' = Some (JInt 5)"
    by simp_all
  note offer = relay_to_target_only
      [where data = "[''target_id'' \<mapsto> JStr ''A'', ''offer'' \<mapsto> JStr ''sdp'']"
         and v = "JStr ''sdp''" and c = "''B''", OF state_r1_def state_r1_A t1]
  note answer = relay_to_target_only
      [where data = "[''target_id'' \<mapsto> JStr ''A'', ''answer'' \<mapsto> JStr ''sdp'']"
         and v = "JStr ''sdp''" and c = "''B''", OF state_r1_def state_r1_A t2]
  note candidate = relay_to_target_only
      [where data = "[''target_id'' \<mapsto> JStr ''A'', ''candidate'' \<mapsto> JInt 5]"
         and v = "JInt 5" and c = "''B''", OF state_r1_def state_r1_A t3]
  show ?thesis
  proof (intro conjI)
    show "''A'' |\<in>| connected state_r1"
      by (rule state_r1_A)
    show "handle_offer ''B'' [''target_id'' \<mapsto> JStr ''A'', ''offer'' \<mapsto> JStr ''sdp''] state_r1 =
        (state_r1,
         [Emit ''offer'' [(''offer'', JStr ''sdp''), (''sender_id'', JStr ''B'')] (ToRoom (JStr ''A'') True)],
         None)"
      by (rule offer [THEN conjunct1, THEN mp, OF v1])
    show "handle_answer ''B'' [''target_id'' \<mapsto> JStr ''A'', ''answer'' \<mapsto> JStr ''sdp''] state_r1 =
        (state_r1,
         [Emit ''answer'' [(''answer'', JStr ''sdp''), (''sender_id'', JStr ''B'')] (ToRoom (JStr ''A'') True)],
         None)"
      by (rule answer [THEN conjunct2, THEN conjunct1, THEN mp, OF v2])
    show "handle_ice_candidate ''B'' [''target_id'' \<mapsto> JStr ''A'', ''candidate'' \<mapsto> JInt 5] state_r1 =
        (state_r1,
         [Emit ''ice_candidate'' [(''candidate'', JInt 5), (''sender_id'', JStr ''B'')] (ToRoom (JStr ''A'') True)],
         None)"
      by (rule candidate [THEN conjunct2, THEN conjunct2, THEN conjunct1, THEN mp, OF v3])
    show "addressees state_r1 ''B''
        (Emit ''offer'' [(''offer'', JStr ''sdp''), (''sender_id'', JStr ''B'')] (ToRoom (JStr ''A'') True)) =
        {|''A''|}"
      by (rule offer [THEN conjunct2, THEN conjunct2, THEN conjunct2])
  qed
qed

section \<open>Creating a room under a key in use\<close>



section \<open>Teardown and the logs\<close>

text \<open>
  C7, as stated, fails for the stats log: after the host \<open>A\<close> of \<open>r1\<close> has disconnected
  and the room is gone, \<open>get_stats\<close> still returns the entry recorded for \<open>r1\<close>.
\<close>

theorem teardown_keeps_stats_counterexample:
  "DAList.lookup (active_rooms state_r1) (JStr ''r1'') = Some room_r1 \<and>
   host_id room_r1 = ''A'' \<and>
   DAList.lookup (active_rooms (fst (handle_disconnect ''A'' state_r1))) (JStr ''r1'') = None \<and>
   get_stats ''r1'' (fst (handle_disconnect ''A'' state_r1)) =
     [[(''timestamp'', JStr ''2025-01-01T00:00:01''), (''stats'', JInt 7)]]"
  by (simp add: disconnect_lookup disconnect_frame get_stats_def state_r1_rooms state_r1_stats room_r1_def)

text \<open>
  C7, amended. When the host of the room stored under \<open>k\<close> disconnects, the room, and with
  it its chat history, is removed from \<open>active_rooms\<close>; \<open>stream_stats\<close> is left as it was, so
  \<open>get_stats\<close> returns for every room id what it returned before.
\<close>

theorem teardown_removes_room_keeps_stats:
  assumes "DAList.lookup (active_rooms s) k = Some room"
    and "host_id room = h"
  shows "DAList.lookup (active_rooms (fst (handle_disconnect h s))) k = None \<and>
         stream_stats (fst (handle_disconnect h s)) = stream_stats s \<and>
         get_stats rid (fst (handle_disconnect h s)) = get_stats rid s"
  using assms by (simp add: disconnect_lookup disconnect_frame get_stats_def)

theorem teardown_removes_room_keeps_stats_witness:
  "DAList.lookup (active_rooms state_r1) (JStr ''r1'') = Some room_r1 \<and>
   host_id room_r1 = ''A'' \<and>
   DAList.lookup (active_rooms (fst (handle_disconnect ''A'' state_r1))) (JStr ''r1'') = None \<and>
   stream_stats (fst (handle_disconnect ''A'' state_r1)) = stream_stats state_r1 \<and>
   get_stats ''r1'' (fst (handle_disconnect ''A'' state_r1)) = get_stats ''r1'' state_r1"
proof -
  have host: "host_id room_r1 = ''A''"
    by (simp add: room_r1_def)
  show ?thesis
    using state_r1_lookup host
      teardown_removes_room_keeps_stats [OF state_r1_lookup host, of "''r1''"]
    by simp
qed

section \<open>The viewer set\<close>

text \<open>
  C8. Adding a connection that is already in the viewer set changes nothing, and so does
  adding it a second time; removing a connection a second time leaves the set as the
  first removal left it, and removing one that is not in the set changes nothing.
\<close>

theorem viewer_set_idempotent:
  "(c |\<in>| viewers room \<longrightarrow> add_viewer c room = room) \<and>
   add_viewer c (add_viewer c room) = add_viewer c room \<and>
   remove_viewer c (remove_viewer c room) = remove_viewer c room \<and>
   (c |\<notin>| viewers room \<longrightarrow> remove_viewer c room = room)"
  by (auto simp: add_viewer_def remove_viewer_def finsert_absorb)

theorem viewer_set_idempotent_witness:
  "''B'' |\<in>| viewers room_r1 \<and> add_viewer ''B'' room_r1 = room_r1 \<and>
   add_viewer ''B'' (add_viewer ''B'' room_r1) = add_viewer ''B'' room_r1 \<and>
   remove_viewer ''B'' (remove_viewer ''B'' room_r1) = remove_viewer ''B'' room_r1 \<and>
   ''D'' |\<notin>| viewers room_r1 \<and> remove_viewer ''D'' room_r1 = room_r1"
proof -
  have inB: "''B'' |\<in>| viewers room_r1" and ninD: "''D'' |\<notin>| viewers room_r1"
    by (simp_all add: room_r1_def)
  show ?thesis
    using inB ninD viewer_set_idempotent [of "''B''" room_r1]
      viewer_set_idempotent [of "''D''" room_r1]
    by simp
qed

section \<open>Payloads with a missing field\<close>

text \<open>
  C9, as stated, fails: a \<open>join_room\<close> without \<open>username\<close> for the existing room \<open>r1\<close> adds
  the sender to the viewers and emits \<open>room_joined\<close> and \<open>viewer_joined\<close> with the username
  \<open>Anonymous\<close>; a \<open>chat_message\<close> without \<open>message\<close> is appended to the chat history and
  broadcast with a null message.
\<close>

theorem missing_field_not_ignored_counterexample:
  "''username'' \<notin> fst ` set [(''room_id'', JStr ''r1'')] \<and>
   on_event clock0 ''D'' Join_room (JObj [(''room_id'', JStr ''r1'')]) state_r1 =
     (state_r1\<lparr>sio_rooms := (sio_rooms state_r1)(JStr ''r1'' := finsert ''D'' (sio_rooms state_r1 (JStr ''r1''))),
               active_rooms := DAList.update (JStr ''r1'') (add_viewer ''D'' room_r1) (active_rooms state_r1)\<rparr>,
      [Emit ''room_joined''
         [(''room_id'', JStr ''r1''), (''viewer_count'', JInt 3), (''username'', JStr ''Anonymous'')]
         ToSender,
       Emit ''viewer_joined''
         [(''viewer_id'', JStr ''D''), (''username'', JStr ''Anonymous''), (''viewer_count'', JInt 3)]
         (ToRoom (JStr ''r1'') False)],
      None) \<and>
   ''D'' |\<notin>| viewers room_r1 \<and> ''D'' |\<in>| viewers (add_viewer ''D'' room_r1) \<and>
   ''message'' \<notin> fst ` set [(''room_id'', JStr ''r1''), (''username'', JStr ''Bob'')] \<and>
   on_event clock0 ''B'' Chat_message (JObj [(''room_id'', JStr ''r1''), (''username'', JStr ''Bob'')]) state_r1 =
     (state_r1\<lparr>active_rooms := DAList.update (JStr ''r1'')
                   (room_r1\<lparr>chat_history :=
                      [[(''username'', JStr ''Bob''), (''message'', JNull), (''timestamp'', JStr ''00:00:00'')]]\<rparr>)
                   (active_rooms state_r1)\<rparr>,
      [Emit ''chat_message''
         [(''username'', JStr ''Bob''), (''message'', JNull), (''timestamp'', JStr ''00:00:00'')]
         (ToRoom (JStr ''r1'') True)],
      None)"
proof -
  have cnt: "get_viewer_count (add_viewer ''D'' room_r1) = 3"
    by (simp add: get_viewer_count_def add_viewer_def room_r1_def fcard_finsert_if)
  have hist: "chat_history room_r1 = []"
    by (simp add: room_r1_def)
  have ns: "\<not> sid_room state_r1 (JStr ''r1'')"
    by (simp add: sid_room_def state_r1_connected)
  have changed: "''D'' |\<notin>| viewers room_r1 \<and> ''D'' |\<in>| viewers (add_viewer ''D'' room_r1)"
    by (simp add: add_viewer_def room_r1_def)
  show ?thesis
    using state_r1_lookup cnt hist ns changed
    by (simp add: on_event_def handle_join_room_def handle_chat_message_def get_def get_default_def
        join_room_def emit_last_hashable clock0_def Let_def)
qed

text \<open>
  C9, amended. An event whose payload is a dict that lacks a field is handled exactly as
  if the field had been sent with its default, \<open>Anonymous\<close> for \<open>username\<close> and null for any
  other field; and no event leaves the server half-updated: a handler that raises has
  raised before it changed the state or emitted anything.
\<close>

theorem missing_field_read_as_default:
  assumes "f \<notin> fst ` set kvs"
  shows "on_event clk c ev (JObj kvs) s = on_event clk c ev (JObj (kvs @ [(f, field_default f)])) s \<and>
         (snd (snd (on_event clk c ev (JObj kvs) s)) \<noteq> None \<longrightarrow>
            fst (on_event clk c ev (JObj kvs) s) = s \<and>
            fst (snd (on_event clk c ev (JObj kvs) s)) = [])"
proof -
  have "map_of (rev kvs) f = None"
    using assms by (simp add: map_of_eq_None_iff)
  then have "dispatch clk c ev (map_of (rev kvs)) s =
      dispatch clk c ev ((map_of (rev kvs))(f \<mapsto> field_default f)) s"
    by (rule dispatch_with_default)
  then have eq: "on_event clk c ev (JObj kvs) s =
      on_event clk c ev (JObj (kvs @ [(f, field_default f)])) s"
    by (simp add: on_event_def)
  have closed: "fst (on_event clk c ev (JObj kvs) s) = s \<and>
      fst (snd (on_event clk c ev (JObj kvs) s)) = []"
    if raised: "snd (snd (on_event clk c ev (JObj kvs) s)) \<noteq> None"
    using raised dispatch_raise_closed [of clk c ev "map_of (rev kvs)" s]
    by (simp add: on_event_def)
  show ?thesis
    using eq closed by blast
qed

theorem missing_field_read_as_default_witness:
  "''username'' \<notin> fst ` set [(''room_id'', JStr ''r1'')] \<and>
   on_event clock0 ''D'' Join_room (JObj [(''room_id'', JStr ''r1'')]) state_r1 =
     on_event clock0 ''D'' Join_room
       (JObj [(''room_id'', JStr ''r1''), (''username'', JStr ''Anonymous'')]) state_r1 \<and>
   ''username'' \<notin> fst ` set [(''room_id'', JArr [])] \<and>
   snd (snd (on_event clock0 ''D'' Join_room (JObj [(''room_id'', JArr [])]) state_r1)) \<noteq> None \<and>
   fst (on_event clock0 ''D'' Join_room (JObj [(''room_id'', JArr [])]) state_r1) = state_r1 \<and>
   fst (snd (on_event clock0 ''D'' Join_room (JObj [(''room_id'', JArr [])]) state_r1)) = []"
proof -
  have m1: "''username'' \<notin> fst ` set [(''room_id'', JStr ''r1'')]"
    and m2: "''username'' \<notin> fst ` set [(''room_id'', JArr [])]"
    by simp_all
  have dflt: "field_default ''username'' = JStr ''Anonymous''"
    by (simp add: field_default_def)
  have raised: "snd (snd (on_event clock0 ''D'' Join_room (JObj [(''room_id'', JArr [])]) state_r1)) \<noteq> None"
    by (simp add: on_event_def handle_join_room_def get_def)
  note one = missing_field_read_as_default
      [where kvs = "[(''room_id'', JStr ''r1'')]" and f = "''username''" and clk = clock0
         and c = "''D''" and ev = Join_room and s = state_r1, OF m1]
  note two = missing_field_read_as_default
      [where kvs = "[(''room_id'', JArr [])]" and f = "''username''" and clk = clock0
         and c = "''D''" and ev = Join_room and s = state_r1, OF m2]
  have "on_event clock0 ''D'' Join_room (JObj [(''room_id'', JStr ''r1'')]) state_r1 =
      on_event clock0 ''D'' Join_room
        (JObj [(''room_id'', JStr ''r1''), (''username'', JStr ''Anonymous'')]) state_r1"
    using one [THEN conjunct1] unfolding dflt by simp
  moreover have "fst (on_event clock0 ''D'' Join_room (JObj [(''room_id'', JArr [])]) state_r1) = state_r1 \<and>
      fst (snd (on_event clock0 ''D'' Join_room (JObj [(''room_id'', JArr [])]) state_r1)) = []"
    by (rule two [THEN conjunct2, THEN mp, OF raised])
  ultimately show ?thesis
    using m1 m2 raised by blast
qed

section \<open>Events for a room that does not exist\<close>



end
